theory Spec2Isabelle
  imports Main "HOL-Library.Word"
begin

unbundle bit_operations_syntax

section \<open>The STM32H7 flash driver of the Black Magic Debug probe\<close>

text \<open>
  A shallow embedding of \<^verbatim>\<open>src/target/stm32h7.c\<close>. The driver talks to the
  microcontroller through the probe's generic target interface
  (\<^verbatim>\<open>target_mem_read32\<close>, \<^verbatim>\<open>target_mem_write32\<close>, \<^verbatim>\<open>target_mem_write\<close>,
  \<^verbatim>\<open>target_check_error\<close>, \<^verbatim>\<open>tc_printf\<close>, ...). Every such interaction is
  recorded, in program order, in a history of events kept in the target. What the
  hardware answers is decided by an environment: a function from the history so far (and
  the address read) to the answer. Any deterministic hardware, transport or allocator is
  such a function, so a statement for every environment is a statement for every device.

  The polling loops of the driver have no bound of their own. They are modelled as
  partial functions into \<open>option\<close>: \<open>None\<close> is a loop that never ends.

  \<^verbatim>\<open>uint32_t\<close> and \<^verbatim>\<open>target_addr_t\<close> are \<open>32 word\<close>. \<^verbatim>\<open>size_t\<close> is \<open>32 word\<close>
  as well: the probe firmware is built for 32-bit ARM Cortex-M. The \<^verbatim>\<open>DEBUG_WARN\<close> and
  \<^verbatim>\<open>DEBUG_INFO\<close> macros are defined outside this file; they are taken to expand to
  nothing, as in the firmware build without debug output, so their arguments are not
  evaluated.
\<close>

type_synonym u32 = "32 word"
type_synonym u16 = "16 word"
type_synonym u8 = "8 word"

subsection \<open>Register map and bit masks\<close>

definition FLASH_ACR :: u32 where "FLASH_ACR = 0x00"
definition FLASH_KEYR :: u32 where "FLASH_KEYR = 0x04"
definition FLASH_OPTKEYR :: u32 where "FLASH_OPTKEYR = 0x08"
definition FLASH_CR :: u32 where "FLASH_CR = 0x0c"
definition FLASH_SR :: u32 where "FLASH_SR = 0x10"
definition FLASH_CCR :: u32 where "FLASH_CCR = 0x14"
definition FLASH_OPTCR :: u32 where "FLASH_OPTCR = 0x18"
definition FLASH_OPTSR_CUR :: u32 where "FLASH_OPTSR_CUR = 0x1C"
definition FLASH_OPTSR :: u32 where "FLASH_OPTSR = 0x20"
definition FLASH_CRCCR :: u32 where "FLASH_CRCCR = 0x50"
definition FLASH_CRCDATA :: u32 where "FLASH_CRCDATA = 0x5C"

definition H7_IWDG_BASE :: u32 where "H7_IWDG_BASE = 0x58004c00"
definition FPEC1_BASE :: u32 where "FPEC1_BASE = 0x52002000"
definition FPEC2_BASE :: u32 where "FPEC2_BASE = 0x52002100"

definition FLASH_SR_BSY :: u32 where "FLASH_SR_BSY = push_bit 0 1"
definition FLASH_SR_WBNE :: u32 where "FLASH_SR_WBNE = push_bit 1 1"
definition FLASH_SR_QW :: u32 where "FLASH_SR_QW = push_bit 2 1"
definition FLASH_SR_CRC_BUSY :: u32 where "FLASH_SR_CRC_BUSY = push_bit 3 1"
definition FLASH_SR_EOP :: u32 where "FLASH_SR_EOP = push_bit 16 1"
definition FLASH_SR_WRPERR :: u32 where "FLASH_SR_WRPERR = push_bit 17 1"
definition FLASH_SR_PGSERR :: u32 where "FLASH_SR_PGSERR = push_bit 18 1"
definition FLASH_SR_STRBERR :: u32 where "FLASH_SR_STRBERR = push_bit 19 1"
definition FLASH_SR_INCERR :: u32 where "FLASH_SR_INCERR = push_bit 21 1"
definition FLASH_SR_OPERR :: u32 where "FLASH_SR_OPERR = push_bit 22 1"
definition FLASH_SR_RDPERR :: u32 where "FLASH_SR_RDPERR = push_bit 23 1"
definition FLASH_SR_RDSERR :: u32 where "FLASH_SR_RDSERR = push_bit 24 1"
definition FLASH_SR_SNECCERR :: u32 where "FLASH_SR_SNECCERR = push_bit 25 1"
definition FLASH_SR_DBERRERR :: u32 where "FLASH_SR_DBERRERR = push_bit 26 1"

definition FLASH_SR_ERROR_READ :: u32 where
  "FLASH_SR_ERROR_READ =
     (FLASH_SR_RDPERR OR FLASH_SR_RDSERR OR FLASH_SR_SNECCERR OR FLASH_SR_DBERRERR)"

definition FLASH_SR_ERROR_MASK :: u32 where
  "FLASH_SR_ERROR_MASK =
     (FLASH_SR_WRPERR OR FLASH_SR_PGSERR OR FLASH_SR_STRBERR OR
      FLASH_SR_INCERR OR FLASH_SR_OPERR OR FLASH_SR_ERROR_READ)"

definition FLASH_CR_LOCK :: u32 where "FLASH_CR_LOCK = push_bit 0 1"
definition FLASH_CR_PG :: u32 where "FLASH_CR_PG = push_bit 1 1"
definition FLASH_CR_SER :: u32 where "FLASH_CR_SER = push_bit 2 1"
definition FLASH_CR_BER :: u32 where "FLASH_CR_BER = push_bit 3 1"
definition FLASH_CR_PSIZE8 :: u32 where "FLASH_CR_PSIZE8 = push_bit 4 0"
definition FLASH_CR_PSIZE16 :: u32 where "FLASH_CR_PSIZE16 = push_bit 4 1"
definition FLASH_CR_PSIZE32 :: u32 where "FLASH_CR_PSIZE32 = push_bit 4 2"
definition FLASH_CR_PSIZE64 :: u32 where "FLASH_CR_PSIZE64 = push_bit 4 3"
definition FLASH_CR_FW :: u32 where "FLASH_CR_FW = push_bit 6 1"
definition FLASH_CR_START :: u32 where "FLASH_CR_START = push_bit 7 1"
definition FLASH_CR_SNB_1 :: u32 where "FLASH_CR_SNB_1 = push_bit 8 1"
definition FLASH_CR_SNB :: u32 where "FLASH_CR_SNB = push_bit 8 3"
definition FLASH_CR_CRC_EN :: u32 where "FLASH_CR_CRC_EN = push_bit 15 1"

definition FLASH_OPTSR_IWDG1_SW :: u32 where "FLASH_OPTSR_IWDG1_SW = push_bit 4 1"

definition FLASH_CRCCR_ALL_BANK :: u32 where "FLASH_CRCCR_ALL_BANK = push_bit 7 1"
definition FLASH_CRCCR_START_CRC :: u32 where "FLASH_CRCCR_START_CRC = push_bit 16 1"
definition FLASH_CRCCR_CLEAN_CRC :: u32 where "FLASH_CRCCR_CLEAN_CRC = push_bit 17 1"
definition FLASH_CRCCR_CRC_BURST_3 :: u32 where "FLASH_CRCCR_CRC_BURST_3 = push_bit 20 3"

definition KEY1 :: u32 where "KEY1 = 0x45670123"
definition KEY2 :: u32 where "KEY2 = 0xCDEF89AB"

definition DBGMCU_IDCODE :: u32 where "DBGMCU_IDCODE = 0x5c001000"
definition DBGMCU_IDC :: u32 where "DBGMCU_IDC = DBGMCU_IDCODE + 0"
definition DBGMCU_CR :: u32 where "DBGMCU_CR = DBGMCU_IDCODE + 4"
definition DBGSLEEP_D1 :: u32 where "DBGSLEEP_D1 = push_bit 0 1"
definition D1DBGCKEN :: u32 where "D1DBGCKEN = push_bit 21 1"

definition BANK1_START :: u32 where "BANK1_START = 0x08000000"
definition NUM_SECTOR_PER_BANK :: u32 where "NUM_SECTOR_PER_BANK = 8"
definition FLASH_SECTOR_SIZE :: u32 where "FLASH_SECTOR_SIZE = 0x20000"
definition BANK2_START :: u32 where "BANK2_START = 0x08100000"

definition ID_STM32H74x :: u16 where "ID_STM32H74x = 0x4500"
definition ID_STM32H7Bx :: u16 where "ID_STM32H7Bx = 0x4800"
definition ID_STM32H72x :: u16 where "ID_STM32H72x = 0x4830"

subsection \<open>Events, environment and target\<close>

text \<open>
  Modelled from the spec: \<^verbatim>\<open>enum align\<close> is declared in a header outside this file. The
  write parallelism is one of 8, 16, 32 and 64 bits, encoded so that the value times
  \<^verbatim>\<open>FLASH_CR_PSIZE16\<close> is the parallelism field of the control register.
\<close>

datatype align = ALIGN_BYTE | ALIGN_HALFWORD | ALIGN_WORD | ALIGN_DWORD

fun align_val :: "align \<Rightarrow> u32" where
  "align_val ALIGN_BYTE = 0"
| "align_val ALIGN_HALFWORD = 1"
| "align_val ALIGN_WORD = 2"
| "align_val ALIGN_DWORD = 3"

text \<open>
  The events of a history: a 32-bit read (address, value returned), a 32-bit write
  (address, value), a block write (address, bytes), a transport status query (its
  answer), a formatted print (format string, arguments), a progress report, the start of
  a timeout (milliseconds), an allocation (whether it succeeded), the generic core attach
  (whether it succeeded) and detach, and the registration of the monitor commands.
\<close>

datatype parg = PInt u32 | PStr string | PChar char

datatype event =
    Read32 u32 u32
  | Write32 u32 u32
  | WriteBlock u32 "u8 list"
  | CheckError bool
  | Printf string "parg list"
  | Progress
  | TimeoutSet nat
  | Calloc bool
  | CortexmAttach bool
  | CortexmDetach
  | AddCommands

text \<open>
  The environment: what a read of an address returns, whether the transport reports a
  failure, whether an allocation and the core attach succeed, each as a function of the
  history so far.
\<close>

record env =
  rd32 :: "event list \<Rightarrow> u32 \<Rightarrow> u32"
  chk_err :: "event list \<Rightarrow> bool"
  calloc_ok :: "event list \<Rightarrow> bool"
  cortexm_ok :: "event list \<Rightarrow> bool"

text \<open>Function pointers: the handlers of this driver, or one of another driver.\<close>

datatype fn_ptr =
    Stm32h7_flash_erase
  | Stm32h7_flash_write
  | Stm32h7_mass_erase
  | Stm32h7_attach
  | Stm32h7_detach
  | Foreign_fn

text \<open>
  \<^verbatim>\<open>struct stm32h7_flash\<close>: the generic flash descriptor \<^verbatim>\<open>target_flash_s\<close> followed by
  the driver's two fields. A descriptor of another driver in the same list has a
  different \<^verbatim>\<open>write\<close> handler; the driver never reads its private fields.
\<close>

record stm32h7_flash =
  f_start :: u32
  f_length :: u32
  f_blocksize :: u32
  f_erase :: fn_ptr
  f_write :: fn_ptr
  f_writesize :: u32
  f_erased :: u8
  psize :: align
  regbase :: u32

record stm32h7_priv_s =
  dbg_cr :: u32

text \<open>
  Modelled from the spec: \<^verbatim>\<open>struct target_s\<close> is declared outside this file. The
  record has the fields the driver uses: the part id, the registered flash and RAM
  regions, the private storage (a null pointer before the probe), the driver name and the
  mass-erase, attach and detach hooks. The history of the interactions is kept with it.
\<close>

record target =
  part_id :: u16
  flash :: "stm32h7_flash list"
  ram :: "(u32 \<times> u32) list"
  target_storage :: "stm32h7_priv_s option"
  driver :: "string option"
  mass_erase_fn :: "fn_ptr option"
  attach_fn :: "fn_ptr option"
  detach_fn :: "fn_ptr option"
  hist :: "event list"

text \<open>Undefined behaviour of the C code that the model makes a result.\<close>

datatype fault = NullDeref | OutOfBounds

subsection \<open>The target interface\<close>

text \<open>
  The functions of this subsection are external collaborators of the driver
  (\<^verbatim>\<open>target.c\<close>, \<^verbatim>\<open>cortexm.c\<close>, the platform). Each call is one event of the
  history; a read or a query returns what the environment answers at that point.
\<close>

text \<open>Appending events to the history of the target.\<close>

definition log :: "target \<Rightarrow> event list \<Rightarrow> target" where
  "log t evs = t\<lparr>hist := hist t @ evs\<rparr>"

text \<open>
  Modelled from the spec: \<^verbatim>\<open>target_mem_read32\<close> is the generic \<^verbatim>\<open>read32(address)\<close>
  over the attached transport.
\<close>

definition target_mem_read32 :: "env \<Rightarrow> target \<Rightarrow> u32 \<Rightarrow> u32 \<times> target" where
  "target_mem_read32 e t a = (let v = rd32 e (hist t) a in (v, log t [Read32 a v]))"

text \<open>
  Modelled from the spec: \<^verbatim>\<open>target_mem_write32\<close> is the generic
  \<^verbatim>\<open>write32(address, value)\<close>.
\<close>

definition target_mem_write32 :: "target \<Rightarrow> u32 \<Rightarrow> u32 \<Rightarrow> target" where
  "target_mem_write32 t a v = log t [Write32 a v]"

text \<open>
  Modelled from the spec: \<^verbatim>\<open>target_mem_write\<close> is the generic
  \<^verbatim>\<open>write_block(address, bytes)\<close>, one block write.
\<close>

definition target_mem_write :: "target \<Rightarrow> u32 \<Rightarrow> u8 list \<Rightarrow> target" where
  "target_mem_write t dest src = log t [WriteBlock dest src]"

text \<open>
  Modelled from the spec: \<^verbatim>\<open>target_check_error\<close> is the status query that tells
  whether the transport reported a communication failure.
\<close>

definition target_check_error :: "env \<Rightarrow> target \<Rightarrow> bool \<times> target" where
  "target_check_error e t = (let b = chk_err e (hist t) in (b, log t [CheckError b]))"

text \<open>
  Modelled from the spec: \<^verbatim>\<open>tc_printf\<close> is the formatted text sink to the operator.
  The event keeps the format string and the arguments.
\<close>

definition tc_printf :: "target \<Rightarrow> string \<Rightarrow> parg list \<Rightarrow> target" where
  "tc_printf t fmt args = log t [Printf fmt args]"

text \<open>
  Modelled from the spec: \<^verbatim>\<open>target_print_progress\<close> is the progress-reporting call
  during long waits, \<^verbatim>\<open>platform_timeout_set\<close> starts the timeout it is given.
\<close>

definition target_print_progress :: "target \<Rightarrow> target" where
  "target_print_progress t = log t [Progress]"

definition platform_timeout_set :: "target \<Rightarrow> nat \<Rightarrow> target" where
  "platform_timeout_set t ms = log t [TimeoutSet ms]"

text \<open>
  Modelled from the spec: \<^verbatim>\<open>target_mem_map_free\<close> discards the registered memory
  regions; \<^verbatim>\<open>target_add_ram\<close> and \<^verbatim>\<open>target_add_flash\<close> register a RAM region
  (base, length) and a flash descriptor. The registry is a linked list; a new region is
  put at its head.
\<close>

definition target_mem_map_free :: "target \<Rightarrow> target" where
  "target_mem_map_free t = t\<lparr>ram := [], flash := []\<rparr>"

definition target_add_ram :: "target \<Rightarrow> u32 \<Rightarrow> u32 \<Rightarrow> target" where
  "target_add_ram t start len = t\<lparr>ram := (start, len) # ram t\<rparr>"

definition target_add_flash :: "target \<Rightarrow> stm32h7_flash \<Rightarrow> target" where
  "target_add_flash t f = t\<lparr>flash := f # flash t\<rparr>"

text \<open>
  Modelled from the spec: the generic core attach and detach (\<^verbatim>\<open>cortexm_attach\<close>,
  \<^verbatim>\<open>cortexm_detach\<close>) and the command registry (\<^verbatim>\<open>target_add_commands\<close>) are
  invoked by the driver and specified at their interface only; the allocator
  (\<^verbatim>\<open>calloc\<close>) may fail. Whether the core attach and an allocation succeed is the
  environment's answer.
\<close>

definition calloc :: "env \<Rightarrow> target \<Rightarrow> bool \<times> target" where
  "calloc e t = (let b = calloc_ok e (hist t) in (b, log t [Calloc b]))"

definition cortexm_attach :: "env \<Rightarrow> target \<Rightarrow> bool \<times> target" where
  "cortexm_attach e t = (let b = cortexm_ok e (hist t) in (b, log t [CortexmAttach b]))"

definition cortexm_detach :: "target \<Rightarrow> target" where
  "cortexm_detach t = log t [CortexmDetach]"

definition target_add_commands :: "target \<Rightarrow> target" where
  "target_add_commands t = log t [AddCommands]"

subsection \<open>Busy-wait and unlock\<close>

text \<open>
  \<^verbatim>\<open>stm32h7_flash_busy_wait\<close>: a do-while loop. The transport is only queried when the
  status shows no error bit (\<^verbatim>\<open>||\<close> short-circuits).
\<close>

partial_function (option) stm32h7_flash_busy_wait ::
  "env \<Rightarrow> target \<Rightarrow> u32 \<Rightarrow> (bool \<times> target) option" where
  "stm32h7_flash_busy_wait e t rb =
     (case target_mem_read32 e t (rb + FLASH_SR) of (sr, t1) \<Rightarrow>
        if sr AND FLASH_SR_ERROR_MASK \<noteq> 0
        then Some (False, target_mem_write32 t1 (rb + FLASH_CCR) (sr AND FLASH_SR_ERROR_MASK))
        else (case target_check_error e t1 of (err, t2) \<Rightarrow>
          if err
          then Some (False, target_mem_write32 t2 (rb + FLASH_CCR) (sr AND FLASH_SR_ERROR_MASK))
          else if sr AND (FLASH_SR_BSY OR FLASH_SR_QW) \<noteq> 0
          then stm32h7_flash_busy_wait e t2 rb
          else Some (True, t2)))"

definition stm32h7_flash_unlock :: "env \<Rightarrow> target \<Rightarrow> u32 \<Rightarrow> (bool \<times> target) option" where
  "stm32h7_flash_unlock e t addr =
     (let rb = (if addr \<ge> BANK2_START then FPEC2_BASE else FPEC1_BASE) in
      case stm32h7_flash_busy_wait e t rb of
        None \<Rightarrow> None
      | Some (ok, t1) \<Rightarrow>
          if \<not> ok then Some (False, t1)
          else (case target_mem_read32 e t1 (rb + FLASH_CR) of (cr, t2) \<Rightarrow>
            let t3 = (if cr AND FLASH_CR_LOCK \<noteq> 0
                      then target_mem_write32 (target_mem_write32 t2 (rb + FLASH_KEYR) KEY1)
                             (rb + FLASH_KEYR) KEY2
                      else t2)
            in (case target_mem_read32 e t3 (rb + FLASH_CR) of (cr', t4) \<Rightarrow>
                  Some (cr' AND FLASH_CR_LOCK = 0, t4))))"

subsection \<open>Sector erase and programming\<close>

text \<open>
  The \<^verbatim>\<open>while (start_sector <= end_sector)\<close> loop of \<^verbatim>\<open>stm32h7_flash_erase\<close>. The
  control word is computed in \<^verbatim>\<open>size_t\<close> and stored in a \<^verbatim>\<open>uint32_t\<close>.
\<close>

partial_function (option) stm32h7_flash_erase_loop ::
  "env \<Rightarrow> target \<Rightarrow> stm32h7_flash \<Rightarrow> u32 \<Rightarrow> u32 \<Rightarrow> (bool \<times> target) option" where
  "stm32h7_flash_erase_loop e t sf start_sector end_sector =
     (if start_sector \<le> end_sector then
        (let ctrl_reg = (align_val (psize sf) * FLASH_CR_PSIZE16) OR FLASH_CR_SER OR
                        (start_sector * FLASH_CR_SNB_1);
             t1 = target_mem_write32 t (regbase sf + FLASH_CR) ctrl_reg;
             t2 = target_mem_write32 t1 (regbase sf + FLASH_CR) (ctrl_reg OR FLASH_CR_START)
         in case stm32h7_flash_busy_wait e t2 (regbase sf) of
              None \<Rightarrow> None
            | Some (ok, t3) \<Rightarrow>
                if \<not> ok then Some (False, t3)
                else stm32h7_flash_erase_loop e t3 sf (start_sector + 1) end_sector)
      else Some (True, t))"

definition stm32h7_flash_erase ::
  "env \<Rightarrow> target \<Rightarrow> stm32h7_flash \<Rightarrow> u32 \<Rightarrow> u32 \<Rightarrow> (bool \<times> target) option" where
  "stm32h7_flash_erase e t sf addr len =
     (case stm32h7_flash_unlock e t addr of
        None \<Rightarrow> None
      | Some (ok, t1) \<Rightarrow>
          if \<not> ok then Some (False, t1)
          else
            (let t2 = target_mem_write32 t1 (regbase sf + FLASH_ACR) 0;
                 addr' = addr AND ((NUM_SECTOR_PER_BANK * FLASH_SECTOR_SIZE) - 1);
                 start_sector = addr' div FLASH_SECTOR_SIZE;
                 end_sector = (addr' + len - 1) div FLASH_SECTOR_SIZE
             in stm32h7_flash_erase_loop e t2 sf start_sector end_sector))"

definition stm32h7_flash_write ::
  "env \<Rightarrow> target \<Rightarrow> stm32h7_flash \<Rightarrow> u32 \<Rightarrow> u8 list \<Rightarrow> (bool \<times> target) option" where
  "stm32h7_flash_write e t sf dest src =
     (case stm32h7_flash_unlock e t dest of
        None \<Rightarrow> None
      | Some (ok, t1) \<Rightarrow>
          if \<not> ok then Some (False, t1)
          else
            (let cr = align_val (psize sf) * FLASH_CR_PSIZE16;
                 t2 = target_mem_write32 t1 (regbase sf + FLASH_CR) cr;
                 t3 = target_mem_write32 t2 (regbase sf + FLASH_CR) (cr OR FLASH_CR_PG);
                 t4 = target_mem_write t3 dest src
             in case stm32h7_flash_busy_wait e t4 (regbase sf) of
                  None \<Rightarrow> None
                | Some (ok', t5) \<Rightarrow>
                    if \<not> ok' then Some (False, t5)
                    else Some (True, target_mem_write32 t5 (regbase sf + FLASH_CR) 0)))"

subsection \<open>Mass erase\<close>

definition stm32h7_erase_bank ::
  "env \<Rightarrow> target \<Rightarrow> align \<Rightarrow> u32 \<Rightarrow> u32 \<Rightarrow> (bool \<times> target) option" where
  "stm32h7_erase_bank e t ps start_addr reg_base =
     (case stm32h7_flash_unlock e t start_addr of
        None \<Rightarrow> None
      | Some (ok, t1) \<Rightarrow>
          if \<not> ok then Some (False, t1)
          else
            (let ctrl_reg = (align_val ps * FLASH_CR_PSIZE16) OR FLASH_CR_BER OR FLASH_CR_START
             in Some (True, target_mem_write32 t1 (reg_base + FLASH_CR) ctrl_reg)))"

partial_function (option) stm32h7_wait_erase_bank ::
  "env \<Rightarrow> target \<Rightarrow> u32 \<Rightarrow> (bool \<times> target) option" where
  "stm32h7_wait_erase_bank e t reg_base =
     (case target_mem_read32 e t (reg_base + FLASH_SR) of (sr, t1) \<Rightarrow>
        if sr AND FLASH_SR_QW \<noteq> 0 then
          (case target_check_error e t1 of (err, t2) \<Rightarrow>
             if err then Some (False, t2)
             else stm32h7_wait_erase_bank e (target_print_progress t2) reg_base)
        else Some (True, t1))"

definition stm32h7_check_bank :: "env \<Rightarrow> target \<Rightarrow> u32 \<Rightarrow> bool \<times> target" where
  "stm32h7_check_bank e t reg_base =
     (case target_mem_read32 e t (reg_base + FLASH_SR) of (status, t1) \<Rightarrow>
        (status AND FLASH_SR_ERROR_MASK = 0, t1))"

text \<open>
  The loop over \<^verbatim>\<open>t->flash\<close> that picks the write parallelism: the setting of the last
  descriptor of this driver in the list, or the value before the loop when there is none.
\<close>

primrec psize_loop :: "stm32h7_flash list \<Rightarrow> align \<Rightarrow> align" where
  "psize_loop [] ps = ps"
| "psize_loop (f # fs) ps =
     psize_loop fs (if f_write f = Stm32h7_flash_write then psize f else ps)"

definition stm32h7_mass_erase :: "env \<Rightarrow> target \<Rightarrow> (bool \<times> target) option" where
  "stm32h7_mass_erase e t =
     (let ps = psize_loop (flash t) ALIGN_DWORD in
      case stm32h7_erase_bank e t ps BANK1_START FPEC1_BASE of
        None \<Rightarrow> None
      | Some (ok1, t1) \<Rightarrow>
          if \<not> ok1 then Some (False, t1)
          else
            (case stm32h7_erase_bank e t1 ps BANK2_START FPEC2_BASE of
               None \<Rightarrow> None
             | Some (ok2, t2) \<Rightarrow>
                 if ok2 then Some (False, t2)
                 else
                   (let t3 = platform_timeout_set t2 500 in
                    case stm32h7_wait_erase_bank e t3 FPEC1_BASE of
                      None \<Rightarrow> None
                    | Some (w1, t4) \<Rightarrow>
                        if \<not> w1 then Some (False, t4)
                        else
                          (case stm32h7_wait_erase_bank e t4 FPEC2_BASE of
                             None \<Rightarrow> None
                           | Some (w2, t5) \<Rightarrow>
                               if \<not> w2 then Some (False, t5)
                               else
                                 (case stm32h7_check_bank e t5 FPEC1_BASE of (c1, t6) \<Rightarrow>
                                    if \<not> c1 then Some (False, t6)
                                    else
                                      (case stm32h7_check_bank e t6 FPEC2_BASE of (c2, t7) \<Rightarrow>
                                         Some (c2, t7)))))))"

subsection \<open>Monitor commands\<close>

definition stm32h7_uid :: "env \<Rightarrow> target \<Rightarrow> bool \<times> target" where
  "stm32h7_uid e t =
     (let uid = (if part_id t = ID_STM32H7Bx then 0x08fff800 else 0x1ff1e800 :: u32);
          word_out = (\<lambda>i t.
            case target_mem_read32 e t (uid + i) of (val, t1) \<Rightarrow>
              tc_printf
                (tc_printf
                  (tc_printf
                    (tc_printf t1 ''%02X'' [PInt (drop_bit 24 val AND 0xff)])
                    ''%02X'' [PInt (drop_bit 16 val AND 0xff)])
                  ''%02X'' [PInt (drop_bit 8 val AND 0xff)])
                ''%02X'' [PInt (drop_bit 0 val AND 0xff)]);
          t1 = tc_printf t ''0x'' [];
          t2 = word_out 8 (word_out 4 (word_out 0 t1))
      in (True, tc_printf t2 [CHR 0x0A] []))"

text \<open>The polling loop of \<^verbatim>\<open>stm32h7_crc_bank\<close>; the result is the C \<^verbatim>\<open>int\<close>.\<close>

partial_function (option) stm32h7_crc_bank_loop ::
  "env \<Rightarrow> target \<Rightarrow> u32 \<Rightarrow> (int \<times> target) option" where
  "stm32h7_crc_bank_loop e t rb =
     (case target_mem_read32 e t (rb + FLASH_SR) of (sr, t1) \<Rightarrow>
        if sr AND FLASH_SR_CRC_BUSY \<noteq> 0 then
          (case target_check_error e t1 of (err, t2) \<Rightarrow>
             if err then Some (- 1, t2)
             else if sr AND FLASH_SR_ERROR_READ \<noteq> 0 then Some (- 1, t2)
             else stm32h7_crc_bank_loop e t2 rb)
        else Some (0, t1))"

definition stm32h7_crc_bank :: "env \<Rightarrow> target \<Rightarrow> u32 \<Rightarrow> (int \<times> target) option" where
  "stm32h7_crc_bank e t bank =
     (let rb = (if bank \<ge> BANK2_START then FPEC2_BASE else FPEC1_BASE) in
      case stm32h7_flash_unlock e t bank of
        None \<Rightarrow> None
      | Some (ok, t1) \<Rightarrow>
          if ok = False then Some (- 1, t1)
          else
            (let cr = FLASH_CR_CRC_EN;
                 t2 = target_mem_write32 t1 (rb + FLASH_CR) cr;
                 crccr = FLASH_CRCCR_CRC_BURST_3 OR FLASH_CRCCR_CLEAN_CRC OR FLASH_CRCCR_ALL_BANK;
                 t3 = target_mem_write32 t2 (rb + FLASH_CRCCR) crccr;
                 t4 = target_mem_write32 t3 (rb + FLASH_CRCCR) (crccr OR FLASH_CRCCR_START_CRC)
             in stm32h7_crc_bank_loop e t4 rb))"

definition crc_fmt :: string where
  "crc_fmt = ''CRC: bank1 0x%08lx, bank2 0x%08lx'' @ [CHR 0x0A]"

definition stm32h7_crc :: "env \<Rightarrow> target \<Rightarrow> (bool \<times> target) option" where
  "stm32h7_crc e t =
     (case stm32h7_crc_bank e t BANK1_START of
        None \<Rightarrow> None
      | Some (r1, t1) \<Rightarrow>
          if r1 \<noteq> 0 then Some (False, t1)
          else
            (case target_mem_read32 e t1 (FPEC1_BASE + FLASH_CRCDATA) of (crc1, t2) \<Rightarrow>
               (case stm32h7_crc_bank e t2 BANK2_START of
                  None \<Rightarrow> None
                | Some (r2, t3) \<Rightarrow>
                    if r2 \<noteq> 0 then Some (False, t3)
                    else
                      (case target_mem_read32 e t3 (FPEC1_BASE + FLASH_CRCDATA) of (crc2, t4) \<Rightarrow>
                         Some (True, tc_printf t4 crc_fmt [PInt crc1, PInt crc2])))))"

text \<open>
  \<^verbatim>\<open>stm32h7_cmd_psize\<close>. \<^verbatim>\<open>argv\<close> is the list of the command's words (each the
  content of a C string), \<^verbatim>\<open>argc\<close> its length. With no word at all, \<^verbatim>\<open>argv[1]\<close> is
  read out of bounds.
\<close>

definition psize_fmt :: string where
  "psize_fmt = ''Flash write parallelism: %s'' @ [CHR 0x0A]"

definition psize_usage :: string where
  "psize_usage = ''usage: monitor psize (x8|x16|x32|x64)'' @ [CHR 0x0A]"

definition psize_name :: "align \<Rightarrow> string" where
  "psize_name ps =
     (if ps = ALIGN_DWORD then ''x64''
      else if ps = ALIGN_WORD then ''x32''
      else if ps = ALIGN_HALFWORD then ''x16'' else ''x8'')"

definition set_psize :: "align \<Rightarrow> stm32h7_flash list \<Rightarrow> stm32h7_flash list" where
  "set_psize ps fs =
     map (\<lambda>f. if f_write f = Stm32h7_flash_write then f\<lparr>psize := ps\<rparr> else f) fs"

definition stm32h7_cmd_psize :: "target \<Rightarrow> string list \<Rightarrow> fault + (bool \<times> target)" where
  "stm32h7_cmd_psize t argv =
     (if length argv = 1 then
        (let ps = psize_loop (flash t) ALIGN_DWORD
         in Inr (True, tc_printf t psize_fmt [PStr (psize_name ps)]))
      else if length argv < 2 then Inl OutOfBounds
      else if argv ! 1 = ''x8'' then Inr (True, t\<lparr>flash := set_psize ALIGN_BYTE (flash t)\<rparr>)
      else if argv ! 1 = ''x16'' then Inr (True, t\<lparr>flash := set_psize ALIGN_HALFWORD (flash t)\<rparr>)
      else if argv ! 1 = ''x32'' then Inr (True, t\<lparr>flash := set_psize ALIGN_WORD (flash t)\<rparr>)
      else if argv ! 1 = ''x64'' then Inr (True, t\<lparr>flash := set_psize ALIGN_DWORD (flash t)\<rparr>)
      else Inr (False, tc_printf t psize_usage []))"

text \<open>
  The revision table and the loop of \<^verbatim>\<open>stm32h7_cmd_rev\<close> over it: every entry is
  visited, a matching entry overwrites the revision character. The 16-bit \<^verbatim>\<open>rev_id\<close> is compared
  with the 32-bit table key.
\<close>

definition stm32h7xx_revisions :: "(u32 \<times> char) list" where
  "stm32h7xx_revisions =
     [(0x1000, CHR ''A''), (0x1001, CHR ''Z''), (0x1003, CHR ''Y''),
      (0x2001, CHR ''X''), (0x2003, CHR ''V'')]"

primrec rev_loop :: "(u32 \<times> char) list \<Rightarrow> u16 \<Rightarrow> char \<Rightarrow> char" where
  "rev_loop [] rev_id c = c"
| "rev_loop (r # rs) rev_id c =
     rev_loop rs rev_id (if fst r = ucast rev_id then snd r else c)"

definition stm32h7_cmd_rev :: "env \<Rightarrow> target \<Rightarrow> bool \<times> target" where
  "stm32h7_cmd_rev e t =
     (case target_mem_read32 e t DBGMCU_IDC of (dbgmcu_idc, t1) \<Rightarrow>
        let rev_id = (ucast (drop_bit 16 dbgmcu_idc AND 0xFFFF) :: u16);
            dev_id = (ucast (dbgmcu_idc AND 0xFFF) :: u16)
        in if dev_id = 0x450 then
             (let t2 = tc_printf t1 (''STM32H742/743/753/750'' @ [CHR 0x0A]) [];
                  c = rev_loop stm32h7xx_revisions rev_id (CHR ''?'')
              in (True, tc_printf t2 (''Revision %c'' @ [CHR 0x0A]) [PChar c]))
           else if dev_id = 0x480 then
             (True, tc_printf t1 (''STM32H7B3/7A3/7B0'' @ [CHR 0x0A]) [])
           else if dev_id = 0x483 then
             (True, tc_printf t1 (''STM32H723/733/725/735/730'' @ [CHR 0x0A]) [])
           else
             (True, tc_printf t1
                (''Unknown STM32H7. This driver may not support it!'' @ [CHR 0x0A]) []))"

subsection \<open>Probe, attach and detach\<close>

definition stm32h7_driver_str :: string where
  "stm32h7_driver_str = ''STM32H7''"

definition stm32h7_add_flash :: "env \<Rightarrow> target \<Rightarrow> u32 \<Rightarrow> u32 \<Rightarrow> u32 \<Rightarrow> target" where
  "stm32h7_add_flash e t addr len blocksize =
     (case calloc e t of (ok, t1) \<Rightarrow>
        if \<not> ok then t1
        else target_add_flash t1
          \<lparr>f_start = addr, f_length = len, f_blocksize = blocksize,
           f_erase = Stm32h7_flash_erase, f_write = Stm32h7_flash_write,
           f_writesize = 2048, f_erased = 0xff, psize = ALIGN_DWORD,
           regbase = (if addr \<ge> BANK2_START then FPEC2_BASE else FPEC1_BASE)\<rparr>)"

definition iwdg_warning :: string where
  "iwdg_warning = ''Hardware IWDG running. Expect failure. Set IWDG1_SW!''"

definition stm32h7_attach :: "env \<Rightarrow> target \<Rightarrow> bool \<times> target" where
  "stm32h7_attach e t =
     (case cortexm_attach e t of (ok, t1) \<Rightarrow>
        if \<not> ok then (False, t1)
        else
          (case target_mem_read32 e t1 (FPEC1_BASE + FLASH_OPTSR) of (optsr, t2) \<Rightarrow>
             let t3 = (if optsr AND FLASH_OPTSR_IWDG1_SW = 0
                       then tc_printf t2 iwdg_warning [] else t2);
                 t4 = target_mem_map_free t3;
                 t5 = target_add_ram t4 0x00000000 0x10000;
                 t6 = target_add_ram t5 0x20000000 0x20000;
                 t7 = target_add_ram t6 0x24000000 0x80000;
                 t8 = target_add_ram t7 0x30000000 0x20000;
                 t9 = target_add_ram t8 0x30020000 0x20000;
                 t10 = target_add_ram t9 0x30040000 0x08000;
                 t11 = target_add_ram t10 0x38000000 0x10000;
                 t12 = stm32h7_add_flash e t11 0x8000000 0x100000 FLASH_SECTOR_SIZE;
                 t13 = stm32h7_add_flash e t12 0x8100000 0x100000 FLASH_SECTOR_SIZE
             in (True, t13)))"

definition stm32h7_detach :: "target \<Rightarrow> fault + target" where
  "stm32h7_detach t =
     (case target_storage t of
        None \<Rightarrow> Inl NullDeref
      | Some ps \<Rightarrow> Inr (cortexm_detach (target_mem_write32 t DBGMCU_CR (dbg_cr ps))))"

text \<open>
  \<^verbatim>\<open>stm32h7_probe\<close> does not check the result of \<^verbatim>\<open>calloc\<close>: a failed allocation is a
  write through a null pointer.
\<close>

definition stm32h7_probe :: "env \<Rightarrow> target \<Rightarrow> fault + (bool \<times> target)" where
  "stm32h7_probe e t =
     (if part_id t = ID_STM32H74x \<or> part_id t = ID_STM32H7Bx \<or> part_id t = ID_STM32H72x then
        (let t1 = t\<lparr>mass_erase_fn := Some Stm32h7_mass_erase,
                    driver := Some stm32h7_driver_str,
                    attach_fn := Some Stm32h7_attach,
                    detach_fn := Some Stm32h7_detach\<rparr>;
             t2 = target_add_commands t1
         in case calloc e t2 of (ok, t3) \<Rightarrow>
              if \<not> ok then Inl NullDeref
              else
                (case target_mem_read32 e t3 DBGMCU_CR of (v, t4) \<Rightarrow>
                   let t5 = t4\<lparr>target_storage := Some \<lparr>dbg_cr = v\<rparr>\<rparr>;
                       dbgmcu_cr = DBGSLEEP_D1 OR D1DBGCKEN
                   in Inr (True, target_mem_write32 t5 DBGMCU_CR dbgmcu_cr)))
      else Inr (False, t))"

section \<open>Specification-level definitions\<close>

subsection \<open>Shapes of a busy-wait history\<close>

text \<open>
  A run of polls that found the bank busy and healthy: each is a read of the status
  register showing no error bit and \<^verbatim>\<open>BSY\<close> or \<^verbatim>\<open>QW\<close>, followed by a transport
  query that reported no failure.
\<close>

fun busy_polls :: "u32 \<Rightarrow> event list \<Rightarrow> bool" where
  "busy_polls rb [] = True"
| "busy_polls rb (Read32 a v # CheckError b # evs) =
     (a = rb + FLASH_SR \<and> v AND FLASH_SR_ERROR_MASK = 0 \<and>
      v AND (FLASH_SR_BSY OR FLASH_SR_QW) \<noteq> 0 \<and> \<not> b \<and> busy_polls rb evs)"
| "busy_polls rb evs = False"

text \<open>The last poll of a busy-wait: idle, a latched error, or a transport failure.\<close>

definition busy_wait_final :: "u32 \<Rightarrow> bool \<Rightarrow> event list \<Rightarrow> bool" where
  "busy_wait_final rb ok fin =
     (\<exists>sr. (ok \<and> sr AND FLASH_SR_ERROR_MASK = 0 \<and>
             sr AND (FLASH_SR_BSY OR FLASH_SR_QW) = 0 \<and>
             fin = [Read32 (rb + FLASH_SR) sr, CheckError False]) \<or>
           (\<not> ok \<and> sr AND FLASH_SR_ERROR_MASK \<noteq> 0 \<and>
             fin = [Read32 (rb + FLASH_SR) sr,
                    Write32 (rb + FLASH_CCR) (sr AND FLASH_SR_ERROR_MASK)]) \<or>
           (\<not> ok \<and> sr AND FLASH_SR_ERROR_MASK = 0 \<and>
             fin = [Read32 (rb + FLASH_SR) sr, CheckError True,
                    Write32 (rb + FLASH_CCR) (sr AND FLASH_SR_ERROR_MASK)]))"

subsection \<open>Histories\<close>

text \<open>
  The controller base that \<^verbatim>\<open>stm32h7_flash_unlock\<close> and \<^verbatim>\<open>stm32h7_crc_bank\<close> select
  for an address.
\<close>

definition unlock_base :: "u32 \<Rightarrow> u32" where
  "unlock_base addr = (if addr \<ge> BANK2_START then FPEC2_BASE else FPEC1_BASE)"

text \<open>A call that only adds events to the history of the target.\<close>

definition framed :: "target \<Rightarrow> target \<Rightarrow> bool" where
  "framed t t' = (\<exists>evs. t' = log t evs)"

text \<open>The values written to one address, in order.\<close>

fun writes_to :: "u32 \<Rightarrow> event list \<Rightarrow> u32 list" where
  "writes_to a [] = []"
| "writes_to a (Write32 a' v # evs) = (if a' = a then v # writes_to a evs else writes_to a evs)"
| "writes_to a (ev # evs) = writes_to a evs"

subsection \<open>Sector erase as the specification words it\<close>

text \<open>
  The sectors \<open>floor(addr_rel / sector_size)\<close> through
  \<open>floor((addr_rel + len - 1) / sector_size)\<close>, inclusive and ascending, over the
  integers; \<open>addr_rel\<close> is the address masked to the 1 MiB bank window.
\<close>

definition erase_range_spec :: "u32 \<Rightarrow> u32 \<Rightarrow> int list" where
  "erase_range_spec addr len =
     (let addr_rel = uint (addr AND 0xFFFFF)
      in [addr_rel div 131072 .. (addr_rel + uint len - 1) div 131072])"

definition sector_cmd :: "stm32h7_flash \<Rightarrow> int \<Rightarrow> u32" where
  "sector_cmd sf n =
     (align_val (psize sf) * FLASH_CR_PSIZE16) OR FLASH_CR_SER OR (word_of_int n * FLASH_CR_SNB_1)"

text \<open>
  Each sector of the list in turn: arm (the command word), trigger (the command word
  with the start bit), busy-wait; the first sector whose busy-wait reports an error ends
  the operation with failure, the remaining sectors untouched.
\<close>

fun erase_sectors_spec ::
  "env \<Rightarrow> target \<Rightarrow> stm32h7_flash \<Rightarrow> int list \<Rightarrow> (bool \<times> target) option" where
  "erase_sectors_spec e t sf [] = Some (True, t)"
| "erase_sectors_spec e t sf (n # ns) =
     (case stm32h7_flash_busy_wait e
             (log t [Write32 (regbase sf + FLASH_CR) (sector_cmd sf n),
                     Write32 (regbase sf + FLASH_CR) (sector_cmd sf n OR FLASH_CR_START)])
             (regbase sf) of
        None \<Rightarrow> None
      | Some (ok, t') \<Rightarrow> if ok then erase_sectors_spec e t' sf ns else Some (False, t'))"

subsection \<open>A debug session\<close>

text \<open>
  The driver entry points that the probe can call between \<^verbatim>\<open>stm32h7_probe\<close> and
  \<^verbatim>\<open>stm32h7_detach\<close>, and a session as a list of such calls. A call that never
  returns, or that faults, ends the session with \<open>None\<close>.
\<close>

datatype call =
    Attach
  | Erase stm32h7_flash u32 u32
  | Program stm32h7_flash u32 "u8 list"
  | MassErase
  | CmdPsize "string list"
  | CmdUid
  | CmdCrc
  | CmdRev

fun do_call :: "env \<Rightarrow> target \<Rightarrow> call \<Rightarrow> target option" where
  "do_call e t Attach = Some (snd (stm32h7_attach e t))"
| "do_call e t (Erase sf addr len) = map_option snd (stm32h7_flash_erase e t sf addr len)"
| "do_call e t (Program sf dest src) = map_option snd (stm32h7_flash_write e t sf dest src)"
| "do_call e t MassErase = map_option snd (stm32h7_mass_erase e t)"
| "do_call e t (CmdPsize argv) =
     (case stm32h7_cmd_psize t argv of Inl x \<Rightarrow> None | Inr r \<Rightarrow> Some (snd r))"
| "do_call e t CmdUid = Some (snd (stm32h7_uid e t))"
| "do_call e t CmdCrc = map_option snd (stm32h7_crc e t)"
| "do_call e t CmdRev = Some (snd (stm32h7_cmd_rev e t))"

fun run_calls :: "env \<Rightarrow> target \<Rightarrow> call list \<Rightarrow> target option" where
  "run_calls e t [] = Some t"
| "run_calls e t (c # cs) =
     (case do_call e t c of None \<Rightarrow> None | Some t' \<Rightarrow> run_calls e t' cs)"

subsection \<open>Concrete targets and environments\<close>

text \<open>A target fresh from the scan, with nothing registered and an empty history.\<close>

definition target0 :: "u16 \<Rightarrow> target" where
  "target0 pid =
     \<lparr>part_id = pid, flash = [], ram = [], target_storage = None, driver = None,
      mass_erase_fn = None, attach_fn = None, detach_fn = None, hist = []\<rparr>"

text \<open>The two descriptors that \<^verbatim>\<open>stm32h7_attach\<close> registers.\<close>

definition bank1_flash :: stm32h7_flash where
  "bank1_flash =
     \<lparr>f_start = 0x08000000, f_length = 0x100000, f_blocksize = 0x20000,
      f_erase = Stm32h7_flash_erase, f_write = Stm32h7_flash_write,
      f_writesize = 2048, f_erased = 0xff, psize = ALIGN_DWORD, regbase = 0x52002000\<rparr>"

definition bank2_flash :: stm32h7_flash where
  "bank2_flash =
     \<lparr>f_start = 0x08100000, f_length = 0x100000, f_blocksize = 0x20000,
      f_erase = Stm32h7_flash_erase, f_write = Stm32h7_flash_write,
      f_writesize = 2048, f_erased = 0xff, psize = ALIGN_DWORD, regbase = 0x52002100\<rparr>"

text \<open>
  Every read returns \<open>v\<close>; the transport, the allocator and the core attach never fail.
\<close>

definition env_const :: "u32 \<Rightarrow> env" where
  "env_const v =
     \<lparr>rd32 = (\<lambda>h a. v), chk_err = (\<lambda>h. False),
      calloc_ok = (\<lambda>h. True), cortexm_ok = (\<lambda>h. True)\<rparr>"

text \<open>
  Bank 1 rejects every command: its status register reads 0 until the first write to its
  control register, and shows the write-protection error (bit 17) from then on.
\<close>

definition is_cr1_write :: "event \<Rightarrow> bool" where
  "is_cr1_write ev = (case ev of Write32 a v \<Rightarrow> a = 0x5200200C | _ \<Rightarrow> False)"

definition env_wrperr :: env where
  "env_wrperr =
     \<lparr>rd32 = (\<lambda>h a. if a = 0x52002010 \<and> list_ex is_cr1_write h then 0x20000 else 0),
      chk_err = (\<lambda>h. False), calloc_ok = (\<lambda>h. True), cortexm_ok = (\<lambda>h. True)\<rparr>"

text \<open>
  The two digest registers hold different values; everything else reads 0 (idle,
  unlocked).
\<close>

definition env_crc :: env where
  "env_crc =
     \<lparr>rd32 = (\<lambda>h a. if a = 0x5200205C then 0x11111111
                      else if a = 0x5200215C then 0x22222222 else 0),
      chk_err = (\<lambda>h. False), calloc_ok = (\<lambda>h. True), cortexm_ok = (\<lambda>h. True)\<rparr>"

text \<open>
  Every location is a register: a read returns the last value written to it, or \<open>d\<close>
  when nothing was written yet.
\<close>

fun reg_value :: "event list \<Rightarrow> u32 \<Rightarrow> u32 \<Rightarrow> u32" where
  "reg_value [] a d = d"
| "reg_value (ev # evs) a d =
     reg_value evs a (case ev of Write32 a' v \<Rightarrow> if a' = a then v else d | _ \<Rightarrow> d)"

definition env_regs :: "u32 \<Rightarrow> env" where
  "env_regs d =
     \<lparr>rd32 = (\<lambda>h a. reg_value h a d), chk_err = (\<lambda>h. False),
      calloc_ok = (\<lambda>h. True), cortexm_ok = (\<lambda>h. True)\<rparr>"

text \<open>
  The heap is exhausted: every allocation fails. The option status register reads
  \<open>0x10\<close> (software watchdog); the transport and the core attach do not fail.
\<close>

definition env_nomem :: env where
  "env_nomem =
     \<lparr>rd32 = (\<lambda>h a. 0x10), chk_err = (\<lambda>h. False),
      calloc_ok = (\<lambda>h. False), cortexm_ok = (\<lambda>h. True)\<rparr>"

text \<open>The RAM windows that \<^verbatim>\<open>stm32h7_attach\<close> registers, last registered first.\<close>

definition attach_ram :: "(u32 \<times> u32) list" where
  "attach_ram =
     [(0x38000000, 0x10000), (0x30040000, 0x08000), (0x30020000, 0x20000),
      (0x30000000, 0x20000), (0x24000000, 0x80000), (0x20000000, 0x20000),
      (0x00000000, 0x10000)]"

text \<open>
  A session on an H74x whose locations all behave as registers holding 7: the target after
  \<^verbatim>\<open>stm32h7_probe\<close>, and after a following \<^verbatim>\<open>stm32h7_attach\<close>.
\<close>

definition session_probed :: target where
  "session_probed =
     \<lparr>part_id = 0x4500, flash = [], ram = [], target_storage = Some \<lparr>dbg_cr = 7\<rparr>,
      driver = Some ''STM32H7'', mass_erase_fn = Some Stm32h7_mass_erase,
      attach_fn = Some Stm32h7_attach, detach_fn = Some Stm32h7_detach,
      hist = [AddCommands, Calloc True, Read32 0x5C001004 7, Write32 0x5C001004 0x200001]\<rparr>"

definition session_attached :: target where
  "session_attached =
     session_probed
       \<lparr>flash := [bank2_flash, bank1_flash], ram := attach_ram,
        hist := [AddCommands, Calloc True, Read32 0x5C001004 7, Write32 0x5C001004 0x200001,
                 CortexmAttach True, Read32 0x52002020 7,
                 Printf ''Hardware IWDG running. Expect failure. Set IWDG1_SW!'' [],
                 Calloc True, Calloc True]\<rparr>"

text \<open>
  An H72x after \<^verbatim>\<open>stm32h7_attach\<close> where the option status register reads \<open>0x10\<close>
  (software watchdog), and an H74x with the two banks registered.
\<close>

definition attached_h72x :: target where
  "attached_h72x =
     (target0 0x4830)
       \<lparr>flash := [bank2_flash, bank1_flash], ram := attach_ram,
        hist := [CortexmAttach True, Read32 0x52002020 0x10, Calloc True, Calloc True]\<rparr>"

definition target_two_banks :: target where
  "target_two_banks = (target0 0x4500)\<lparr>flash := [bank2_flash, bank1_flash]\<rparr>"

section \<open>Basic facts\<close>

lemmas reg_defs =
  FLASH_ACR_def FLASH_KEYR_def FLASH_CR_def FLASH_SR_def FLASH_CCR_def FLASH_OPTSR_def
  FLASH_CRCCR_def FLASH_CRCDATA_def FPEC1_BASE_def FPEC2_BASE_def
  DBGMCU_IDCODE_def DBGMCU_IDC_def DBGMCU_CR_def
  BANK1_START_def BANK2_START_def NUM_SECTOR_PER_BANK_def FLASH_SECTOR_SIZE_def

lemmas bit_defs =
  FLASH_SR_BSY_def FLASH_SR_WBNE_def FLASH_SR_QW_def FLASH_SR_CRC_BUSY_def
  FLASH_SR_EOP_def FLASH_SR_WRPERR_def FLASH_SR_PGSERR_def FLASH_SR_STRBERR_def
  FLASH_SR_INCERR_def FLASH_SR_OPERR_def FLASH_SR_RDPERR_def FLASH_SR_RDSERR_def
  FLASH_SR_SNECCERR_def FLASH_SR_DBERRERR_def FLASH_SR_ERROR_READ_def
  FLASH_SR_ERROR_MASK_def FLASH_CR_LOCK_def FLASH_CR_PG_def FLASH_CR_SER_def
  FLASH_CR_BER_def FLASH_CR_PSIZE16_def FLASH_CR_START_def FLASH_CR_SNB_1_def
  FLASH_CR_CRC_EN_def FLASH_OPTSR_IWDG1_SW_def FLASH_CRCCR_ALL_BANK_def
  FLASH_CRCCR_START_CRC_def FLASH_CRCCR_CLEAN_CRC_def FLASH_CRCCR_CRC_BURST_3_def
  KEY1_def KEY2_def DBGSLEEP_D1_def D1DBGCKEN_def

lemmas prim_defs =
  target_mem_read32_def target_mem_write32_def target_mem_write_def target_check_error_def
  tc_printf_def target_print_progress_def platform_timeout_set_def calloc_def
  cortexm_attach_def cortexm_detach_def target_add_commands_def

lemma log_log [simp]: "log (log t a) b = log t (a @ b)"
  by (simp add: log_def)

lemma log_Nil [simp]: "log t [] = t"
  by (simp add: log_def)

lemma hist_log [simp]: "hist (log t evs) = hist t @ evs"
  by (simp add: log_def)

lemma log_fields [simp]:
  "target_storage (log t evs) = target_storage t"
  "flash (log t evs) = flash t"
  "ram (log t evs) = ram t"
  "part_id (log t evs) = part_id t"
  by (simp_all add: log_def)

lemma env_const_simps [simp]:
  "rd32 (env_const v) h a = v"
  "chk_err (env_const v) h = False"
  "calloc_ok (env_const v) h = True"
  "cortexm_ok (env_const v) h = True"
  by (simp_all add: env_const_def)

section \<open>The busy-wait engine\<close>

lemmas busy_wait_induct =
  stm32h7_flash_busy_wait.raw_induct [rotated 1, consumes 1, case_names step]

text \<open>
  Whenever the busy-wait returns, what it added to the history is a run of busy polls
  followed by one final poll; nothing else of the target changes.
\<close>

lemma busy_wait_shape:
  assumes "stm32h7_flash_busy_wait e t rb = Some r"
  shows "\<exists>pre fin. busy_polls rb pre \<and> busy_wait_final rb (fst r) fin \<and>
           snd r = log t (pre @ fin)"
  using assms
proof (induct rule: busy_wait_induct)
  case (step bw e t rb r)
  let ?sr = "rd32 e (hist t) (rb + FLASH_SR)"
  let ?t1 = "log t [Read32 (rb + FLASH_SR) ?sr]"
  let ?ack = "Write32 (rb + FLASH_CCR) (?sr AND FLASH_SR_ERROR_MASK)"
  show ?case
  proof (cases "?sr AND FLASH_SR_ERROR_MASK \<noteq> 0")
    case True
    with step(2) have "r = (False, log t [Read32 (rb + FLASH_SR) ?sr, ?ack])"
      by (auto simp: prim_defs Let_def)
    with True show ?thesis
      by (intro exI[of _ "[]"] exI[of _ "[Read32 (rb + FLASH_SR) ?sr, ?ack]"])
         (auto simp: busy_wait_final_def)
  next
    case noerr: False
    show ?thesis
    proof (cases "chk_err e (hist ?t1)")
      case True
      with noerr step(2)
      have "r = (False, log t [Read32 (rb + FLASH_SR) ?sr, CheckError True, ?ack])"
        by (auto simp: prim_defs Let_def)
      with noerr show ?thesis
        by (intro exI[of _ "[]"]
              exI[of _ "[Read32 (rb + FLASH_SR) ?sr, CheckError True, ?ack]"])
           (auto simp: busy_wait_final_def)
    next
      case commok: False
      let ?t2 = "log t [Read32 (rb + FLASH_SR) ?sr, CheckError False]"
      show ?thesis
      proof (cases "?sr AND (FLASH_SR_BSY OR FLASH_SR_QW) \<noteq> 0")
        case True
        with noerr commok step(2) have "bw e ?t2 rb = Some r"
          by (auto simp: prim_defs Let_def)
        from step(1)[OF this] obtain pre fin where
          "busy_polls rb pre" "busy_wait_final rb (fst r) fin" "snd r = log ?t2 (pre @ fin)"
          by blast
        with True noerr show ?thesis
          by (intro exI[of _ "Read32 (rb + FLASH_SR) ?sr # CheckError False # pre"]
                exI[of _ fin]) auto
      next
        case False
        with noerr commok step(2) have "r = (True, ?t2)"
          by (auto simp: prim_defs Let_def)
        with False noerr show ?thesis
          by (intro exI[of _ "[]"] exI[of _ "[Read32 (rb + FLASH_SR) ?sr, CheckError False]"])
             (auto simp: busy_wait_final_def)
      qed
    qed
  qed
qed

lemma busy_polls_read:
  "busy_polls rb pre \<Longrightarrow> Read32 a v \<in> set pre \<Longrightarrow> v AND FLASH_SR_ERROR_MASK = 0"
  by (induct rb pre rule: busy_polls.induct) auto

lemma busy_polls_no_write: "busy_polls rb pre \<Longrightarrow> Write32 a v \<notin> set pre"
  by (induct rb pre rule: busy_polls.induct) auto

lemma and_or_zero: "(sr :: u32) AND (a OR b) = 0 \<longleftrightarrow> sr AND a = 0 \<and> sr AND b = 0"
  by (simp add: bit.conj_disj_distrib or_eq_0_iff)

lemma busy_wait_const_idle:
  "v AND FLASH_SR_ERROR_MASK = 0 \<Longrightarrow> v AND (FLASH_SR_BSY OR FLASH_SR_QW) = 0 \<Longrightarrow>
   stm32h7_flash_busy_wait (env_const v) t rb =
     Some (True, log t [Read32 (rb + FLASH_SR) v, CheckError False])"
  by (subst stm32h7_flash_busy_wait.simps) (simp add: prim_defs)

text \<open>
  Claim C3, as amended. The busy-wait never returns success while the busy bit
  (\<^verbatim>\<open>BSY\<close>), the queued-write bit (\<^verbatim>\<open>QW\<close>) or any error bit is set: when it returns
  success, the last thing it did was to read the bank's status register and to query the
  transport, and that status shows \<^verbatim>\<open>BSY\<close>, \<^verbatim>\<open>QW\<close> and every error bit clear. The loop
  condition is \<^verbatim>\<open>sr & (FLASH_SR_BSY | FLASH_SR_QW)\<close>: write-buffer-not-empty and
  crc-busy are not waited for.
\<close>

theorem busy_wait_success_idle:
  assumes "stm32h7_flash_busy_wait e t rb = Some (True, t')"
  shows "\<exists>pre sr. hist t' = hist t @ pre @ [Read32 (rb + FLASH_SR) sr, CheckError False] \<and>
           sr AND FLASH_SR_BSY = 0 \<and> sr AND FLASH_SR_QW = 0 \<and>
           sr AND FLASH_SR_ERROR_MASK = 0"
proof -
  from busy_wait_shape[OF assms] obtain pre fin where
    fin: "busy_wait_final rb True fin" and t': "t' = log t (pre @ fin)"
    by auto
  from fin obtain sr where "sr AND FLASH_SR_ERROR_MASK = 0"
    "sr AND (FLASH_SR_BSY OR FLASH_SR_QW) = 0"
    "fin = [Read32 (rb + FLASH_SR) sr, CheckError False]"
    by (auto simp: busy_wait_final_def)
  with t' show ?thesis
    by (auto simp: and_or_zero)
qed

text \<open>Witness: an idle bank 1 (status 0) on a fresh target.\<close>

theorem busy_wait_success_idle_witness:
  "stm32h7_flash_busy_wait (env_const 0) (target0 0x4500) FPEC1_BASE =
     Some (True, log (target0 0x4500) [Read32 (FPEC1_BASE + FLASH_SR) 0, CheckError False]) \<and>
   (\<exists>pre sr. hist (log (target0 0x4500) [Read32 (FPEC1_BASE + FLASH_SR) 0, CheckError False]) =
        hist (target0 0x4500) @ pre @ [Read32 (FPEC1_BASE + FLASH_SR) sr, CheckError False] \<and>
        sr AND FLASH_SR_BSY = 0 \<and> sr AND FLASH_SR_QW = 0 \<and> sr AND FLASH_SR_ERROR_MASK = 0)"
proof -
  have h: "stm32h7_flash_busy_wait (env_const 0) (target0 0x4500) FPEC1_BASE =
     Some (True, log (target0 0x4500) [Read32 (FPEC1_BASE + FLASH_SR) 0, CheckError False])"
    by (simp add: busy_wait_const_idle)
  from busy_wait_success_idle[OF h] h show ?thesis by simp
qed

text \<open>
  Counterexample to C3 as stated: the status register of bank 1 reads \<open>0xA\<close>, that is
  write-buffer-not-empty (bit 1) and crc-busy (bit 3) are both set, and the busy-wait
  returns success on the first poll.
\<close>

theorem busy_wait_wbne_counterexample:
  "stm32h7_flash_busy_wait (env_const 0xA) (target0 0x4500) FPEC1_BASE =
     Some (True, log (target0 0x4500) [Read32 (FPEC1_BASE + FLASH_SR) 0xA, CheckError False]) \<and>
   (0xA :: u32) AND FLASH_SR_WBNE \<noteq> 0 \<and> (0xA :: u32) AND FLASH_SR_CRC_BUSY \<noteq> 0"
  by (simp add: busy_wait_const_idle bit_defs)

text \<open>
  Claim C6. Whenever the busy-wait observes an error bit in the status register, it
  returns failure at once, and the last thing it does is to write exactly the observed
  error bits (the status masked with \<^verbatim>\<open>FLASH_SR_ERROR_MASK\<close>) to the bank's
  clear-status register. First part: a poll that reads a status with an error bit makes
  the call return, with these two events and nothing else. Every iteration of the loop is
  such a call. Second part: in any returning run, a status read with an error bit is the
  last read, the result is failure and the acknowledging write follows it directly.
\<close>

theorem busy_wait_error_ack:
  "(rd32 e (hist t) (rb + FLASH_SR) AND FLASH_SR_ERROR_MASK \<noteq> 0 \<longrightarrow>
      stm32h7_flash_busy_wait e t rb =
        Some (False, log t
          [Read32 (rb + FLASH_SR) (rd32 e (hist t) (rb + FLASH_SR)),
           Write32 (rb + FLASH_CCR)
             (rd32 e (hist t) (rb + FLASH_SR) AND FLASH_SR_ERROR_MASK)])) \<and>
   (stm32h7_flash_busy_wait e t rb = Some (ok, t') \<and> hist t' = hist t @ evs \<and>
    Read32 (rb + FLASH_SR) sr \<in> set evs \<and> sr AND FLASH_SR_ERROR_MASK \<noteq> 0 \<longrightarrow>
      \<not> ok \<and>
      (\<exists>pre. evs = pre @ [Read32 (rb + FLASH_SR) sr,
                          Write32 (rb + FLASH_CCR) (sr AND FLASH_SR_ERROR_MASK)]))"
proof (intro conjI impI)
  assume "rd32 e (hist t) (rb + FLASH_SR) AND FLASH_SR_ERROR_MASK \<noteq> 0"
  then show "stm32h7_flash_busy_wait e t rb =
        Some (False, log t
          [Read32 (rb + FLASH_SR) (rd32 e (hist t) (rb + FLASH_SR)),
           Write32 (rb + FLASH_CCR)
             (rd32 e (hist t) (rb + FLASH_SR) AND FLASH_SR_ERROR_MASK)])"
    by (subst stm32h7_flash_busy_wait.simps) (simp add: prim_defs Let_def)
next
  assume a: "stm32h7_flash_busy_wait e t rb = Some (ok, t') \<and> hist t' = hist t @ evs \<and>
    Read32 (rb + FLASH_SR) sr \<in> set evs \<and> sr AND FLASH_SR_ERROR_MASK \<noteq> 0"
  from busy_wait_shape[of e t rb "(ok, t')"] a obtain pre fin where
    pre: "busy_polls rb pre" and fin: "busy_wait_final rb ok fin"
    and t': "t' = log t (pre @ fin)"
    by auto
  from t' a have evs: "evs = pre @ fin" by simp
  from a pre have "Read32 (rb + FLASH_SR) sr \<notin> set pre"
    using busy_polls_read by blast
  with a evs have "Read32 (rb + FLASH_SR) sr \<in> set fin" by simp
  with fin a have "\<not> ok \<and> fin = [Read32 (rb + FLASH_SR) sr,
                          Write32 (rb + FLASH_CCR) (sr AND FLASH_SR_ERROR_MASK)]"
    by (auto simp: busy_wait_final_def)
  with evs show "\<not> ok" and "\<exists>pre. evs = pre @ [Read32 (rb + FLASH_SR) sr,
                          Write32 (rb + FLASH_CCR) (sr AND FLASH_SR_ERROR_MASK)]"
    by auto
qed

text \<open>
  Witness: the status register of bank 1 reads \<open>0x20000\<close>, the write-protection
  error (bit 17). The busy-wait fails on the first poll and writes \<open>0x20000\<close> to the
  clear-status register.
\<close>

theorem busy_wait_error_ack_witness:
  "rd32 (env_const 0x20000) (hist (target0 0x4500)) (FPEC1_BASE + FLASH_SR)
      AND FLASH_SR_ERROR_MASK \<noteq> 0 \<and>
   (0x20000 :: u32) = FLASH_SR_WRPERR \<and>
   stm32h7_flash_busy_wait (env_const 0x20000) (target0 0x4500) FPEC1_BASE =
     Some (False, log (target0 0x4500)
       [Read32 (FPEC1_BASE + FLASH_SR) 0x20000, Write32 (FPEC1_BASE + FLASH_CCR) 0x20000]) \<and>
   Read32 (FPEC1_BASE + FLASH_SR) 0x20000 \<in>
     set [Read32 (FPEC1_BASE + FLASH_SR) 0x20000, Write32 (FPEC1_BASE + FLASH_CCR) 0x20000] \<and>
   (\<exists>pre. [Read32 (FPEC1_BASE + FLASH_SR) 0x20000, Write32 (FPEC1_BASE + FLASH_CCR) 0x20000] =
      pre @ [Read32 (FPEC1_BASE + FLASH_SR) 0x20000,
             Write32 (FPEC1_BASE + FLASH_CCR) (0x20000 AND FLASH_SR_ERROR_MASK)])"
proof -
  have m: "(0x20000 :: u32) AND FLASH_SR_ERROR_MASK = 0x20000"
    by (simp add: bit_defs)
  have h: "rd32 (env_const 0x20000) (hist (target0 0x4500)) (FPEC1_BASE + FLASH_SR)
      AND FLASH_SR_ERROR_MASK \<noteq> 0"
    by (simp add: m)
  note inst = busy_wait_error_ack[of "env_const 0x20000" "target0 0x4500" FPEC1_BASE False
      "log (target0 0x4500)
         [Read32 (FPEC1_BASE + FLASH_SR) 0x20000, Write32 (FPEC1_BASE + FLASH_CCR) 0x20000]"
      "[Read32 (FPEC1_BASE + FLASH_SR) 0x20000, Write32 (FPEC1_BASE + FLASH_CCR) 0x20000]"
      "0x20000"]
  from inst h have run: "stm32h7_flash_busy_wait (env_const 0x20000) (target0 0x4500) FPEC1_BASE =
     Some (False, log (target0 0x4500)
       [Read32 (FPEC1_BASE + FLASH_SR) 0x20000, Write32 (FPEC1_BASE + FLASH_CCR) 0x20000])"
    by (simp add: m)
  with inst have "\<exists>pre.
      [Read32 (FPEC1_BASE + FLASH_SR) 0x20000, Write32 (FPEC1_BASE + FLASH_CCR) 0x20000] =
      pre @ [Read32 (FPEC1_BASE + FLASH_SR) 0x20000,
             Write32 (FPEC1_BASE + FLASH_CCR) (0x20000 AND FLASH_SR_ERROR_MASK)]"
    by (simp add: m)
  with run h show ?thesis
    by (simp add: bit_defs)
qed

section \<open>Frames: what a call may write\<close>

lemma busy_wait_frame:
  assumes "stm32h7_flash_busy_wait e t rb = Some (ok, t')"
  shows "\<exists>evs. t' = log t evs \<and> (\<forall>a v. Write32 a v \<in> set evs \<longrightarrow> a = rb + FLASH_CCR)"
proof -
  from busy_wait_shape[OF assms] obtain pre fin where
    pre: "busy_polls rb pre" and fin: "busy_wait_final rb ok fin"
    and t': "t' = log t (pre @ fin)"
    by auto
  from fin have "\<forall>a v. Write32 a v \<in> set fin \<longrightarrow> a = rb + FLASH_CCR"
    by (auto simp: busy_wait_final_def)
  with pre t' show ?thesis
    using busy_polls_no_write by (intro exI[of _ "pre @ fin"]) auto
qed


lemma unlock_frame:
  assumes "stm32h7_flash_unlock e t addr = Some (ok, t')"
  shows "\<exists>evs. t' = log t evs \<and>
           (\<forall>a v. Write32 a v \<in> set evs \<longrightarrow>
              a = unlock_base addr + FLASH_CCR \<or> a = unlock_base addr + FLASH_KEYR)"
proof -
  let ?rb = "unlock_base addr"
  from assms obtain ok1 t1 where bw: "stm32h7_flash_busy_wait e t ?rb = Some (ok1, t1)"
    by (auto simp: stm32h7_flash_unlock_def unlock_base_def Let_def split: option.splits)
  from busy_wait_frame[OF bw] obtain evs1 where
    t1: "t1 = log t evs1" and w1: "\<forall>a v. Write32 a v \<in> set evs1 \<longrightarrow> a = ?rb + FLASH_CCR"
    by auto
  show ?thesis
  proof (cases ok1)
    case False
    with assms bw have "t' = t1"
      by (auto simp: stm32h7_flash_unlock_def unlock_base_def Let_def)
    with t1 w1 show ?thesis by auto
  next
    case True
    let ?cr = "rd32 e (hist t1) (?rb + FLASH_CR)"
    have "\<exists>evs2. t' = log t1 evs2 \<and> (\<forall>a v. Write32 a v \<in> set evs2 \<longrightarrow> a = ?rb + FLASH_KEYR)"
    proof (cases "?cr AND FLASH_CR_LOCK \<noteq> 0")
      case locked: True
      let ?evs = "[Read32 (?rb + FLASH_CR) ?cr, Write32 (?rb + FLASH_KEYR) KEY1,
                   Write32 (?rb + FLASH_KEYR) KEY2]"
      from locked True assms bw
      have "t' = log t1 (?evs @ [Read32 (?rb + FLASH_CR) (rd32 e (hist t1 @ ?evs) (?rb + FLASH_CR))])"
        by (auto simp: stm32h7_flash_unlock_def unlock_base_def Let_def prim_defs)
      then show ?thesis
        by (intro exI[of _ "?evs @ [Read32 (?rb + FLASH_CR) (rd32 e (hist t1 @ ?evs) (?rb + FLASH_CR))]"]) simp
    next
      case unlocked: False
      let ?evs = "[Read32 (?rb + FLASH_CR) ?cr]"
      from unlocked True assms bw
      have "t' = log t1 (?evs @ [Read32 (?rb + FLASH_CR) (rd32 e (hist t1 @ ?evs) (?rb + FLASH_CR))])"
        by (auto simp: stm32h7_flash_unlock_def unlock_base_def Let_def prim_defs)
      then show ?thesis
        by (intro exI[of _ "?evs @ [Read32 (?rb + FLASH_CR) (rd32 e (hist t1 @ ?evs) (?rb + FLASH_CR))]"]) simp
    qed
    then obtain evs2 where t': "t' = log t1 evs2"
      and w2: "\<forall>a v. Write32 a v \<in> set evs2 \<longrightarrow> a = ?rb + FLASH_KEYR"
      by blast
    with t1 w1 show ?thesis
      by (intro exI[of _ "evs1 @ evs2"]) auto
  qed
qed

lemma framed_refl [simp]: "framed t t"
  unfolding framed_def by (rule exI[of _ "[]"]) simp

lemma framed_log [simp]: "framed t (log t evs)"
  unfolding framed_def by blast

lemma framed_trans: "framed a b \<Longrightarrow> framed b c \<Longrightarrow> framed a c"
  unfolding framed_def by auto

lemma framed_log_trans: "framed (log a evs) c \<Longrightarrow> framed a c"
  using framed_trans[OF framed_log] .

lemma framed_storage: "framed t t' \<Longrightarrow> target_storage t' = target_storage t"
  unfolding framed_def by auto

lemma busy_wait_framed: "stm32h7_flash_busy_wait e t rb = Some (ok, t') \<Longrightarrow> framed t t'"
  using busy_wait_frame unfolding framed_def by blast

lemma unlock_framed: "stm32h7_flash_unlock e t addr = Some (ok, t') \<Longrightarrow> framed t t'"
  using unlock_frame unfolding framed_def by blast

lemmas erase_loop_induct =
  stm32h7_flash_erase_loop.raw_induct [rotated 1, consumes 1, case_names step]

lemmas wait_erase_bank_induct =
  stm32h7_wait_erase_bank.raw_induct [rotated 1, consumes 1, case_names step]

lemmas crc_bank_loop_induct =
  stm32h7_crc_bank_loop.raw_induct [rotated 1, consumes 1, case_names step]

lemma erase_loop_framed:
  "stm32h7_flash_erase_loop e t sf s en = Some r \<Longrightarrow> framed t (snd r)"
proof (induct rule: erase_loop_induct)
  case (step loop e t sf s en r)
  show ?case
  proof (cases "s \<le> en")
    case False
    with step(2) show ?thesis by auto
  next
    case True
    let ?c = "(align_val (psize sf) * FLASH_CR_PSIZE16) OR FLASH_CR_SER OR (s * FLASH_CR_SNB_1)"
    let ?t2 = "log t [Write32 (regbase sf + FLASH_CR) ?c,
                      Write32 (regbase sf + FLASH_CR) (?c OR FLASH_CR_START)]"
    from True step(2) obtain ok t3 where
      bw: "stm32h7_flash_busy_wait e ?t2 (regbase sf) = Some (ok, t3)"
      by (auto simp: Let_def prim_defs split: option.splits)
    then have f3: "framed t t3"
      using busy_wait_framed framed_log_trans by blast
    show ?thesis
    proof (cases ok)
      case False
      with True step(2) bw have "r = (False, t3)"
        by (auto simp: Let_def prim_defs)
      with f3 show ?thesis by simp
    next
      case ok: True
      with True step(2) bw have "loop e t3 sf (s + 1) en = Some r"
        by (auto simp: Let_def prim_defs)
      from step(1)[OF this] f3 show ?thesis
        by (rule framed_trans[rotated])
    qed
  qed
qed

lemma flash_erase_framed:
  assumes "stm32h7_flash_erase e t sf addr len = Some (ok, t')"
  shows "framed t t'"
proof -
  from assms obtain ok1 t1 where ul: "stm32h7_flash_unlock e t addr = Some (ok1, t1)"
    by (auto simp: stm32h7_flash_erase_def split: option.splits)
  then have f1: "framed t t1" by (rule unlock_framed)
  show ?thesis
  proof (cases ok1)
    case False
    with assms ul f1 show ?thesis by (auto simp: stm32h7_flash_erase_def)
  next
    case True
    with assms ul obtain s en where
      "stm32h7_flash_erase_loop e (log t1 [Write32 (regbase sf + FLASH_ACR) 0]) sf s en =
         Some (ok, t')"
      by (auto simp: stm32h7_flash_erase_def Let_def prim_defs)
    from erase_loop_framed[OF this] have "framed t1 t'"
      using framed_log_trans by simp
    with f1 show ?thesis by (rule framed_trans)
  qed
qed

lemma flash_write_framed:
  assumes "stm32h7_flash_write e t sf dest src = Some (ok, t')"
  shows "framed t t'"
proof -
  from assms obtain ok1 t1 where ul: "stm32h7_flash_unlock e t dest = Some (ok1, t1)"
    by (auto simp: stm32h7_flash_write_def split: option.splits)
  then have f1: "framed t t1" by (rule unlock_framed)
  show ?thesis
  proof (cases ok1)
    case False
    with assms ul f1 show ?thesis by (auto simp: stm32h7_flash_write_def)
  next
    case True
    with assms ul obtain evs ok2 t5 where
      bw: "stm32h7_flash_busy_wait e (log t1 evs) (regbase sf) = Some (ok2, t5)"
      and t': "t' = t5 \<or> t' = log t5 [Write32 (regbase sf + FLASH_CR) 0]"
      by (auto simp: stm32h7_flash_write_def Let_def prim_defs split: option.splits if_splits)
    from busy_wait_framed[OF bw] have "framed t1 t5"
      by (rule framed_log_trans)
    with t' have "framed t1 t'"
      using framed_trans[OF _ framed_log] by blast
    with f1 show ?thesis by (rule framed_trans)
  qed
qed

lemma erase_bank_framed:
  assumes "stm32h7_erase_bank e t ps a rb = Some (ok, t')"
  shows "framed t t'"
proof -
  from assms obtain ok1 t1 where ul: "stm32h7_flash_unlock e t a = Some (ok1, t1)"
    by (auto simp: stm32h7_erase_bank_def split: option.splits)
  then have f1: "framed t t1" by (rule unlock_framed)
  from assms ul have "t' = t1 \<or> (\<exists>evs. t' = log t1 evs)"
    by (auto simp: stm32h7_erase_bank_def Let_def prim_defs split: if_splits)
  then have "framed t1 t'" by auto
  with f1 show ?thesis by (rule framed_trans)
qed

lemma wait_erase_bank_framed:
  "stm32h7_wait_erase_bank e t rb = Some r \<Longrightarrow> framed t (snd r)"
proof (induct rule: wait_erase_bank_induct)
  case (step wait e t rb r)
  let ?sr = "rd32 e (hist t) (rb + FLASH_SR)"
  let ?t1 = "log t [Read32 (rb + FLASH_SR) ?sr]"
  show ?case
  proof (cases "?sr AND FLASH_SR_QW \<noteq> 0")
    case False
    with step(2) show ?thesis by (auto simp: prim_defs Let_def)
  next
    case True
    show ?thesis
    proof (cases "chk_err e (hist ?t1)")
      case True
      with \<open>?sr AND FLASH_SR_QW \<noteq> 0\<close> step(2) show ?thesis
        by (auto simp: prim_defs Let_def)
    next
      case False
      with \<open>?sr AND FLASH_SR_QW \<noteq> 0\<close> step(2)
      have "wait e (log t [Read32 (rb + FLASH_SR) ?sr, CheckError False, Progress]) rb = Some r"
        by (auto simp: prim_defs Let_def)
      from step(1)[OF this] show ?thesis
        by (rule framed_log_trans)
    qed
  qed
qed

lemma check_bank_framed: "framed t (snd (stm32h7_check_bank e t rb))"
  by (simp add: stm32h7_check_bank_def prim_defs Let_def)

lemma mass_erase_framed:
  assumes "stm32h7_mass_erase e t = Some (ok, t')"
  shows "framed t t'"
proof -
  let ?ps = "psize_loop (flash t) ALIGN_DWORD"
  from assms obtain ok1 t1 where
    b1: "stm32h7_erase_bank e t ?ps BANK1_START FPEC1_BASE = Some (ok1, t1)"
    by (auto simp: stm32h7_mass_erase_def Let_def split: option.splits)
  then have f1: "framed t t1" by (rule erase_bank_framed)
  show ?thesis
  proof (cases ok1)
    case False
    with assms b1 f1 show ?thesis by (auto simp: stm32h7_mass_erase_def Let_def)
  next
    case ok1: True
    with assms b1 obtain ok2 t2 where
      b2: "stm32h7_erase_bank e t1 ?ps BANK2_START FPEC2_BASE = Some (ok2, t2)"
      by (auto simp: stm32h7_mass_erase_def Let_def split: option.splits)
    then have f2: "framed t t2" using erase_bank_framed f1 framed_trans by blast
    show ?thesis
    proof (cases ok2)
      case True
      with ok1 assms b1 b2 f2 show ?thesis by (auto simp: stm32h7_mass_erase_def Let_def)
    next
      case ok2: False
      let ?t3 = "log t2 [TimeoutSet 500]"
      from ok1 ok2 assms b1 b2 obtain w1 t4 where
        w1: "stm32h7_wait_erase_bank e ?t3 FPEC1_BASE = Some (w1, t4)"
        by (auto simp: stm32h7_mass_erase_def Let_def prim_defs split: option.splits)
      from wait_erase_bank_framed[OF w1] have "framed t2 t4"
        using framed_log_trans by simp
      with f2 have f4: "framed t t4" by (rule framed_trans)
      show ?thesis
      proof (cases w1)
        case False
        with ok1 ok2 assms b1 b2 w1 f4 show ?thesis
          by (auto simp: stm32h7_mass_erase_def Let_def prim_defs)
      next
        case w1t: True
        with ok1 ok2 assms b1 b2 w1 obtain w2 t5 where
          w2: "stm32h7_wait_erase_bank e t4 FPEC2_BASE = Some (w2, t5)"
          by (auto simp: stm32h7_mass_erase_def Let_def prim_defs split: option.splits)
        from wait_erase_bank_framed[OF w2] f4 have f5: "framed t t5"
          using framed_trans by auto
        show ?thesis
        proof (cases w2)
          case False
          with w1t ok1 ok2 assms b1 b2 w1 w2 f5 show ?thesis
            by (auto simp: stm32h7_mass_erase_def Let_def prim_defs)
        next
          case True
          with w1t ok1 ok2 assms b1 b2 w1 w2
          have "t' = snd (stm32h7_check_bank e t5 FPEC1_BASE) \<or>
                t' = snd (stm32h7_check_bank e (snd (stm32h7_check_bank e t5 FPEC1_BASE)) FPEC2_BASE)"
            by (auto simp: stm32h7_mass_erase_def Let_def prim_defs split: prod.splits if_splits)
          then have "framed t5 t'"
            using check_bank_framed framed_trans by metis
          with f5 show ?thesis by (rule framed_trans)
        qed
      qed
    qed
  qed
qed


lemma crc_bank_loop_framed:
  "stm32h7_crc_bank_loop e t rb = Some r \<Longrightarrow> framed t (snd r)"
proof (induct rule: crc_bank_loop_induct)
  case (step loop e t rb r)
  let ?sr = "rd32 e (hist t) (rb + FLASH_SR)"
  let ?t1 = "log t [Read32 (rb + FLASH_SR) ?sr]"
  show ?case
  proof (cases "?sr AND FLASH_SR_CRC_BUSY \<noteq> 0")
    case False
    with step(2) show ?thesis by (auto simp: prim_defs Let_def)
  next
    case busy: True
    show ?thesis
    proof (cases "chk_err e (hist ?t1) \<or> ?sr AND FLASH_SR_ERROR_READ \<noteq> 0")
      case True
      with busy step(2) show ?thesis
        by (auto simp: prim_defs Let_def split: if_splits)
    next
      case False
      with busy step(2)
      have "loop e (log t [Read32 (rb + FLASH_SR) ?sr, CheckError False]) rb = Some r"
        by (auto simp: prim_defs Let_def)
      from step(1)[OF this] show ?thesis
        by (rule framed_log_trans)
    qed
  qed
qed

lemma crc_bank_framed:
  assumes "stm32h7_crc_bank e t bank = Some (r, t')"
  shows "framed t t'"
proof -
  from assms obtain ok1 t1 where ul: "stm32h7_flash_unlock e t bank = Some (ok1, t1)"
    by (auto simp: stm32h7_crc_bank_def Let_def split: option.splits)
  then have f1: "framed t t1" by (rule unlock_framed)
  show ?thesis
  proof (cases ok1)
    case False
    with assms ul f1 show ?thesis by (auto simp: stm32h7_crc_bank_def Let_def)
  next
    case True
    with assms ul obtain evs rb where
      "stm32h7_crc_bank_loop e (log t1 evs) rb = Some (r, t')"
      by (auto simp: stm32h7_crc_bank_def Let_def prim_defs)
    from crc_bank_loop_framed[OF this] have "framed t1 t'"
      using framed_log_trans by simp
    with f1 show ?thesis by (rule framed_trans)
  qed
qed

lemma crc_framed:
  assumes "stm32h7_crc e t = Some (ok, t')"
  shows "framed t t'"
proof -
  from assms obtain r1 t1 where c1: "stm32h7_crc_bank e t BANK1_START = Some (r1, t1)"
    by (auto simp: stm32h7_crc_def split: option.splits)
  then have f1: "framed t t1" by (rule crc_bank_framed)
  show ?thesis
  proof (cases "r1 = 0")
    case False
    with assms c1 f1 show ?thesis by (auto simp: stm32h7_crc_def)
  next
    case True
    let ?c1 = "rd32 e (hist t1) (FPEC1_BASE + FLASH_CRCDATA)"
    let ?t2 = "log t1 [Read32 (FPEC1_BASE + FLASH_CRCDATA) ?c1]"
    from True assms c1 obtain r2 t3 where
      c2: "stm32h7_crc_bank e ?t2 BANK2_START = Some (r2, t3)"
      by (auto simp: stm32h7_crc_def prim_defs Let_def split: option.splits)
    from crc_bank_framed[OF c2] have "framed t1 t3" by (rule framed_log_trans)
    with f1 have f3: "framed t t3" by (rule framed_trans)
    from True assms c1 c2 have "t' = t3 \<or> (\<exists>evs. t' = log t3 evs)"
      by (auto simp: stm32h7_crc_def prim_defs Let_def split: if_splits)
    then have "framed t3 t'" by auto
    with f3 show ?thesis by (rule framed_trans)
  qed
qed

lemma writes_to_append [simp]: "writes_to a (xs @ ys) = writes_to a xs @ writes_to a ys"
  by (induct a xs rule: writes_to.induct) auto



lemma env_wrperr_simps [simp]:
  "rd32 env_wrperr h a = (if a = 0x52002010 \<and> list_ex is_cr1_write h then 0x20000 else 0)"
  "chk_err env_wrperr h = False"
  by (simp_all add: env_wrperr_def)

lemma log_inj [simp]: "log t a = log t b \<longleftrightarrow> a = b"
proof
  assume "log t a = log t b"
  then have "hist (log t a) = hist (log t b)" by simp
  then show "a = b" by simp
qed simp

lemma unlock_const_0:
  "stm32h7_flash_unlock (env_const 0) t addr =
     Some (True, log t [Read32 (unlock_base addr + FLASH_SR) 0, CheckError False,
                        Read32 (unlock_base addr + FLASH_CR) 0,
                        Read32 (unlock_base addr + FLASH_CR) 0])"
  by (simp add: stm32h7_flash_unlock_def unlock_base_def busy_wait_const_idle prim_defs
        Let_def) 


section \<open>Programming\<close>









section \<open>Sector erase\<close>

lemma sector_cmd_word: "sector_cmd sf (uint s) =
   (align_val (psize sf) * FLASH_CR_PSIZE16) OR FLASH_CR_SER OR (s * FLASH_CR_SNB_1)"
  by (simp add: sector_cmd_def)

lemma erase_loop_spec:
  "uint en < 2 ^ 32 - 1 \<Longrightarrow>
   stm32h7_flash_erase_loop e t sf s en = erase_sectors_spec e t sf [uint s .. uint en]"
proof (induct "nat (uint en + 1 - uint s)" arbitrary: s t)
  case 0
  then have "\<not> s \<le> en" by (simp add: word_le_def)
  moreover from 0 have "[uint s .. uint en] = []" by simp
  ultimately show ?case
    by (subst stm32h7_flash_erase_loop.simps) simp
next
  case (Suc n)
  then have le: "s \<le> en" by (simp add: word_le_def)
  then have ule: "uint s \<le> uint en" by (simp add: word_le_def)
  with Suc(3) have s1: "uint (s + 1) = uint s + 1"
    by (simp add: uint_word_ariths mod_pos_pos_trivial)
  from ule have list: "[uint s .. uint en] = uint s # [uint s + 1 .. uint en]"
    by (simp add: upto_rec1)
  from Suc(2) s1 have n: "n = nat (uint en + 1 - uint (s + 1))" by simp
  have ih: "\<And>t'. stm32h7_flash_erase_loop e t' sf (s + 1) en =
                 erase_sectors_spec e t' sf [uint s + 1 .. uint en]"
    using Suc(1)[OF n Suc(3)] s1 by simp
  show ?case
    apply (subst stm32h7_flash_erase_loop.simps)
    apply (simp add: le list sector_cmd_word Let_def prim_defs ih split: option.splits)
    done
qed

lemma uint_end_sector:
  assumes "len \<noteq> 0" "uint a + uint len - 1 < 2 ^ 32"
  shows "uint ((a + len - 1) div (0x20000 :: u32)) = (uint a + uint len - 1) div 131072"
proof -
  from assms(1) have "uint len \<noteq> 0"
    by (simp add: uint_0_iff)
  then have "0 < uint len"
    using uint_nonnegative[of len] by linarith
  moreover have "0 \<le> uint a" by simp
  ultimately have nonneg: "0 \<le> uint a + uint len - 1" by linarith
  have "uint (a + len - 1) = (uint a + uint len - 1) mod 2 ^ 32"
    by (simp add: uint_word_ariths mod_diff_left_eq)
  with nonneg assms(2) have "uint (a + len - 1) = uint a + uint len - 1"
    by (simp add: mod_pos_pos_trivial)
  then show ?thesis
    by (simp add: uint_div)
qed

lemma end_sector_bound: "uint ((x :: u32) div 0x20000) < 2 ^ 32 - 1"
proof -
  have "uint x < 2 ^ 32" using uint_bounded[of x] by simp
  then have "uint x div 131072 < 2 ^ 32 - 1" by simp
  then show ?thesis by (simp add: uint_div)
qed

text \<open>
  Claim C5, as amended. For every erase call with a length of at least 1, whose unlock
  succeeded and for which \<open>addr_rel + len - 1\<close> does not wrap around in \<^verbatim>\<open>size_t\<close>,
  the driver writes 0 to the access control register and then does exactly what the
  specification words: for the sectors \<open>floor(addr_rel / sector_size)\<close> through
  \<open>floor((addr_rel + len - 1) / sector_size)\<close>, ascending, it arms, triggers and
  busy-waits, and the first sector whose busy-wait reports an error ends the operation
  with failure. The equation also says that the code returns exactly when the sequence of
  busy-waits does.
\<close>

theorem flash_erase_sectors:
  assumes ul: "stm32h7_flash_unlock e t addr = Some (True, t1)"
    and len: "len \<noteq> 0"
    and fit: "uint (addr AND 0xFFFFF) + uint len - 1 < 2 ^ 32"
  shows "stm32h7_flash_erase e t sf addr len =
           erase_sectors_spec e (target_mem_write32 t1 (regbase sf + FLASH_ACR) 0) sf
             (erase_range_spec addr len)"
proof -
  have mask: "(NUM_SECTOR_PER_BANK * FLASH_SECTOR_SIZE) - 1 = (0xFFFFF :: u32)"
    by (simp add: reg_defs)
  have "stm32h7_flash_erase e t sf addr len =
          stm32h7_flash_erase_loop e (target_mem_write32 t1 (regbase sf + FLASH_ACR) 0) sf
            ((addr AND 0xFFFFF) div 0x20000) (((addr AND 0xFFFFF) + len - 1) div 0x20000)"
    using ul
    by (simp add: stm32h7_flash_erase_def Let_def NUM_SECTOR_PER_BANK_def FLASH_SECTOR_SIZE_def)
  also have "\<dots> = erase_sectors_spec e (target_mem_write32 t1 (regbase sf + FLASH_ACR) 0) sf
            [uint ((addr AND 0xFFFFF) div 0x20000) ..
             uint (((addr AND 0xFFFFF) + len - 1) div 0x20000)]"
    by (rule erase_loop_spec) (rule end_sector_bound)
  also have "[uint ((addr AND 0xFFFFF) div 0x20000) ..
             uint (((addr AND 0xFFFFF) + len - 1) div 0x20000)] = erase_range_spec addr len"
    using uint_end_sector[OF len fit]
    by (simp add: erase_range_spec_def Let_def uint_div)
  finally show ?thesis .
qed

lemma flash_erase_const_0:
  "erase_sectors_spec (env_const 0)
      (target_mem_write32
         (log (target0 0x4500) [Read32 0x52002010 0, CheckError False,
                                Read32 0x5200200C 0, Read32 0x5200200C 0])
         (regbase bank1_flash + FLASH_ACR) 0)
      bank1_flash [0, 1] =
   Some (True, log (target0 0x4500)
     [Read32 0x52002010 0, CheckError False, Read32 0x5200200C 0, Read32 0x5200200C 0,
      Write32 0x52002000 0,
      Write32 0x5200200C 0x34, Write32 0x5200200C 0xB4, Read32 0x52002010 0, CheckError False,
      Write32 0x5200200C 0x134, Write32 0x5200200C 0x1B4, Read32 0x52002010 0,
      CheckError False])"
  by (simp add: busy_wait_const_idle sector_cmd_def prim_defs reg_defs bit_defs bank1_flash_def)

text \<open>
  Witness: \<open>0x20001\<close> bytes from the start of bank 1, all idle: sectors 0 and 1 are
  erased, in this order.
\<close>

theorem flash_erase_sectors_witness:
  "stm32h7_flash_unlock (env_const 0) (target0 0x4500) 0x08000000 =
     Some (True, log (target0 0x4500) [Read32 0x52002010 0, CheckError False,
                                       Read32 0x5200200C 0, Read32 0x5200200C 0]) \<and>
   (0x20001 :: u32) \<noteq> 0 \<and>
   uint ((0x08000000 :: u32) AND 0xFFFFF) + uint (0x20001 :: u32) - 1 < 2 ^ 32 \<and>
   erase_range_spec 0x08000000 0x20001 = [0, 1] \<and>
   stm32h7_flash_erase (env_const 0) (target0 0x4500) bank1_flash 0x08000000 0x20001 =
     Some (True, log (target0 0x4500)
       [Read32 0x52002010 0, CheckError False, Read32 0x5200200C 0, Read32 0x5200200C 0,
        Write32 0x52002000 0,
        Write32 0x5200200C 0x34, Write32 0x5200200C 0xB4, Read32 0x52002010 0, CheckError False,
        Write32 0x5200200C 0x134, Write32 0x5200200C 0x1B4, Read32 0x52002010 0,
        CheckError False])"
proof -
  have ul: "stm32h7_flash_unlock (env_const 0) (target0 0x4500) 0x08000000 =
     Some (True, log (target0 0x4500) [Read32 0x52002010 0, CheckError False,
                                       Read32 0x5200200C 0, Read32 0x5200200C 0])"
    by (simp add: unlock_const_0 unlock_base_def reg_defs)
  have len: "(0x20001 :: u32) \<noteq> 0" by simp
  have fit: "uint ((0x08000000 :: u32) AND 0xFFFFF) + uint (0x20001 :: u32) - 1 < 2 ^ 32"
    by simp
  have range: "erase_range_spec 0x08000000 0x20001 = [0, 1]"
    by (simp add: erase_range_spec_def upto_rec1)
  from flash_erase_sectors[OF ul len fit, of bank1_flash] range flash_erase_const_0
  have "stm32h7_flash_erase (env_const 0) (target0 0x4500) bank1_flash 0x08000000 0x20001 =
     Some (True, log (target0 0x4500)
       [Read32 0x52002010 0, CheckError False, Read32 0x5200200C 0, Read32 0x5200200C 0,
        Write32 0x52002000 0,
        Write32 0x5200200C 0x34, Write32 0x5200200C 0xB4, Read32 0x52002010 0, CheckError False,
        Write32 0x5200200C 0x134, Write32 0x5200200C 0x1B4, Read32 0x52002010 0,
        CheckError False])"
    by simp
  with ul len fit range show ?thesis by blast
qed

text \<open>
  Counterexample to C5 as stated: a call with length 0 at the start of bank 1. Over the
  integers the range \<open>0 .. floor(-1 / sector_size)\<close> is empty, so no sector should be
  commanded. In \<^verbatim>\<open>size_t\<close> the end sector is \<open>(0 + 0 - 1) / 0x20000 = 32767\<close> and the
  loop starts at sector 0: the driver arms (\<open>0x34\<close>) and triggers (\<open>0xB4\<close>) the erase
  of sector 0. Here the bank rejects the command, which ends the loop there.
\<close>

theorem flash_erase_len0_counterexample:
  "stm32h7_flash_unlock env_wrperr (target0 0x4500) 0x08000000 =
     Some (True, log (target0 0x4500) [Read32 0x52002010 0, CheckError False,
                                       Read32 0x5200200C 0, Read32 0x5200200C 0]) \<and>
   erase_range_spec 0x08000000 0 = [] \<and>
   stm32h7_flash_erase env_wrperr (target0 0x4500) bank1_flash 0x08000000 0 =
     Some (False, log (target0 0x4500)
       [Read32 0x52002010 0, CheckError False, Read32 0x5200200C 0, Read32 0x5200200C 0,
        Write32 0x52002000 0, Write32 0x5200200C 0x34, Write32 0x5200200C 0xB4,
        Read32 0x52002010 0x20000, Write32 0x52002014 0x20000])"
proof (intro conjI)
  show "stm32h7_flash_unlock env_wrperr (target0 0x4500) 0x08000000 =
     Some (True, log (target0 0x4500) [Read32 0x52002010 0, CheckError False,
                                       Read32 0x5200200C 0, Read32 0x5200200C 0])"
    by (simp add: stm32h7_flash_unlock_def stm32h7_flash_busy_wait.simps
        prim_defs Let_def reg_defs bit_defs target0_def log_def is_cr1_write_def)
  show "erase_range_spec 0x08000000 0 = []"
    by (simp add: erase_range_spec_def)
  show "stm32h7_flash_erase env_wrperr (target0 0x4500) bank1_flash 0x08000000 0 =
     Some (False, log (target0 0x4500)
       [Read32 0x52002010 0, CheckError False, Read32 0x5200200C 0, Read32 0x5200200C 0,
        Write32 0x52002000 0, Write32 0x5200200C 0x34, Write32 0x5200200C 0xB4,
        Read32 0x52002010 0x20000, Write32 0x52002014 0x20000])"
    apply (simp add: stm32h7_flash_erase_def stm32h7_flash_unlock_def
        stm32h7_flash_busy_wait.simps prim_defs Let_def reg_defs bit_defs bank1_flash_def
        target0_def log_def is_cr1_write_def)
    apply (subst stm32h7_flash_erase_loop.simps)
    apply (simp add: stm32h7_flash_busy_wait.simps prim_defs Let_def reg_defs bit_defs
        bank1_flash_def target0_def log_def is_cr1_write_def)
    done
qed

section \<open>Mass erase\<close>

text \<open>
  Claim C1. The claim requires that, when unlock and the bank-erase command succeed on
  both banks, the operation goes on to wait for both banks and to check their status. The
  code tests the second \<^verbatim>\<open>stm32h7_erase_bank\<close> without negation: when both banks
  were started, it returns failure at once. Evaluated on a target whose registers all
  read 0 (idle, unlocked, no error): both banks receive the bank-erase command
  \<open>0xB8\<close>, the result is failure, and no status register is read afterwards.
\<close>

theorem mass_erase_both_started:
  "stm32h7_erase_bank (env_const 0) (target0 0x4500) ALIGN_DWORD BANK1_START FPEC1_BASE =
     Some (True, log (target0 0x4500)
       [Read32 0x52002010 0, CheckError False, Read32 0x5200200C 0, Read32 0x5200200C 0,
        Write32 0x5200200C 0xB8]) \<and>
   stm32h7_erase_bank (env_const 0)
       (log (target0 0x4500)
         [Read32 0x52002010 0, CheckError False, Read32 0x5200200C 0, Read32 0x5200200C 0,
          Write32 0x5200200C 0xB8])
       ALIGN_DWORD BANK2_START FPEC2_BASE =
     Some (True, log (target0 0x4500)
       [Read32 0x52002010 0, CheckError False, Read32 0x5200200C 0, Read32 0x5200200C 0,
        Write32 0x5200200C 0xB8,
        Read32 0x52002110 0, CheckError False, Read32 0x5200210C 0, Read32 0x5200210C 0,
        Write32 0x5200210C 0xB8]) \<and>
   stm32h7_mass_erase (env_const 0) (target0 0x4500) =
     Some (False, log (target0 0x4500)
       [Read32 0x52002010 0, CheckError False, Read32 0x5200200C 0, Read32 0x5200200C 0,
        Write32 0x5200200C 0xB8,
        Read32 0x52002110 0, CheckError False, Read32 0x5200210C 0, Read32 0x5200210C 0,
        Write32 0x5200210C 0xB8])"
  by (simp add: stm32h7_mass_erase_def stm32h7_erase_bank_def unlock_const_0 unlock_base_def
        prim_defs Let_def reg_defs bit_defs target0_def)

text \<open>
  The same for every target and environment: once both banks were started, the result
  is failure and nothing more is done.
\<close>

lemma mass_erase_started_fails:
  assumes "stm32h7_erase_bank e t (psize_loop (flash t) ALIGN_DWORD) BANK1_START FPEC1_BASE =
             Some (True, t1)"
    and "stm32h7_erase_bank e t1 (psize_loop (flash t) ALIGN_DWORD) BANK2_START FPEC2_BASE =
             Some (True, t2)"
  shows "stm32h7_mass_erase e t = Some (False, t2)"
  using assms by (simp add: stm32h7_mass_erase_def Let_def)

section \<open>The CRC command\<close>

lemma env_crc_simps [simp]:
  "rd32 env_crc h a = (if a = 0x5200205C then 0x11111111
                      else if a = 0x5200215C then 0x22222222 else 0)"
  "chk_err env_crc h = False"
  by (simp_all add: env_crc_def)

text \<open>
  Claim C2. The claim requires the digest of bank 2 to be read from the digest register
  of controller 2, \<open>0x5200215C\<close>. Evaluated on a target whose two digest registers
  hold \<open>0x11111111\<close> (controller 1) and \<open>0x22222222\<close> (controller 2): after the CRC
  of bank 2 has run on controller 2, the command reads \<open>0x5200205C\<close> again, the
  digest register of controller 1, and prints \<open>0x11111111\<close> for both banks.
\<close>

theorem crc_bank2_digest_from_base1:
  "stm32h7_crc env_crc (target0 0x4500) =
     Some (True, log (target0 0x4500)
       [Read32 0x52002010 0, CheckError False, Read32 0x5200200C 0, Read32 0x5200200C 0,
        Write32 0x5200200C 0x8000, Write32 0x52002050 0x320080, Write32 0x52002050 0x330080,
        Read32 0x52002010 0, Read32 0x5200205C 0x11111111,
        Read32 0x52002110 0, CheckError False, Read32 0x5200210C 0, Read32 0x5200210C 0,
        Write32 0x5200210C 0x8000, Write32 0x52002150 0x320080, Write32 0x52002150 0x330080,
        Read32 0x52002110 0, Read32 0x5200205C 0x11111111,
        Printf crc_fmt [PInt 0x11111111, PInt 0x11111111]]) \<and>
   FPEC1_BASE + FLASH_CRCDATA = 0x5200205C \<and> FPEC2_BASE + FLASH_CRCDATA = 0x5200215C"
  by (simp add: stm32h7_crc_def stm32h7_crc_bank_def stm32h7_crc_bank_loop.simps
        stm32h7_flash_unlock_def stm32h7_flash_busy_wait.simps
        prim_defs Let_def reg_defs bit_defs target0_def log_def)

section \<open>Revision lookup\<close>

lemma ucast_rev_eq:
  "((c :: u32) = ucast (r :: u16)) \<longleftrightarrow> uint r = uint c"
  "(ucast (r :: u16) = (c :: u32)) \<longleftrightarrow> uint r = uint c"
  by (auto simp add: word_uint_eq_iff uint_up_ucast is_up)

lemma cmd_rev_revision:
  assumes "(ucast (rd32 e (hist t) DBGMCU_IDC AND 0xFFF) :: u16) = 0x450"
  shows "stm32h7_cmd_rev e t =
    (True, log t
      [Read32 DBGMCU_IDC (rd32 e (hist t) DBGMCU_IDC),
       Printf (''STM32H742/743/753/750'' @ [CHR 0x0A]) [],
       Printf (''Revision %c'' @ [CHR 0x0A])
         [PChar (rev_loop stm32h7xx_revisions
                   (ucast (drop_bit 16 (rd32 e (hist t) DBGMCU_IDC) AND 0xFFFF))
                   (CHR ''?''))]])"
  using assms by (simp add: stm32h7_cmd_rev_def prim_defs Let_def)

text \<open>
  Claim C8. The revision lookup of \<^verbatim>\<open>stm32h7_cmd_rev\<close>, the loop over the table
  \<^verbatim>\<open>stm32h7xx_revisions\<close> started with \<open>?\<close>, maps every 16-bit revision id to one
  character: \<open>0x1000\<close> to A, \<open>0x1001\<close> to Z, \<open>0x1003\<close> to Y, \<open>0x2001\<close> to X,
  \<open>0x2003\<close> to V and every other value to \<open>?\<close>.
\<close>

theorem revision_lookup:
  "rev_loop stm32h7xx_revisions r (CHR ''?'') =
     (if r = 0x1000 then CHR ''A''
      else if r = 0x1001 then CHR ''Z''
      else if r = 0x1003 then CHR ''Y''
      else if r = 0x2001 then CHR ''X''
      else if r = 0x2003 then CHR ''V''
      else CHR ''?'')"
  by (simp add: stm32h7xx_revisions_def ucast_rev_eq word_uint_eq_iff [of r])

section \<open>The psize command\<close>

text \<open>
  Claim C9. When the psize command is given an argument that is none of \<open>x8\<close>,
  \<open>x16\<close>, \<open>x32\<close> and \<open>x64\<close>, it prints the usage message and returns failure;
  the target is unchanged but for the printed line, so no flash descriptor and no
  write-parallelism setting is modified.
\<close>

theorem cmd_psize_unrecognized:
  assumes "2 \<le> length argv"
    and "argv ! 1 \<noteq> ''x8''" "argv ! 1 \<noteq> ''x16''" "argv ! 1 \<noteq> ''x32''" "argv ! 1 \<noteq> ''x64''"
  shows "stm32h7_cmd_psize t argv = Inr (False, log t [Printf psize_usage []]) \<and>
         flash (log t [Printf psize_usage []]) = flash t \<and>
         map psize (flash (log t [Printf psize_usage []])) = map psize (flash t)"
  using assms by (simp add: stm32h7_cmd_psize_def prim_defs)

text \<open>Witness: \<open>psize x128\<close> on a target with both banks at the default x64.\<close>

theorem cmd_psize_unrecognized_witness:
  "2 \<le> length [''psize'', ''x128''] \<and>
   [''psize'', ''x128''] ! 1 \<noteq> ''x8'' \<and> [''psize'', ''x128''] ! 1 \<noteq> ''x16'' \<and>
   [''psize'', ''x128''] ! 1 \<noteq> ''x32'' \<and> [''psize'', ''x128''] ! 1 \<noteq> ''x64'' \<and>
   stm32h7_cmd_psize target_two_banks [''psize'', ''x128''] =
     Inr (False, log target_two_banks [Printf psize_usage []]) \<and>
   map psize (flash (log target_two_banks [Printf psize_usage []])) = [ALIGN_DWORD, ALIGN_DWORD]"
proof -
  have a: "2 \<le> length [''psize'', ''x128'']" by simp
  have b: "[''psize'', ''x128''] ! 1 \<noteq> ''x8''" "[''psize'', ''x128''] ! 1 \<noteq> ''x16''"
    "[''psize'', ''x128''] ! 1 \<noteq> ''x32''" "[''psize'', ''x128''] ! 1 \<noteq> ''x64''"
    by simp_all
  from cmd_psize_unrecognized[OF a b, of target_two_banks] a b
  show ?thesis
    by (simp add: target_two_banks_def bank1_flash_def bank2_flash_def)
qed

section \<open>Attach, probe and detach\<close>

lemma add_flash_cases:
  "stm32h7_add_flash e t a l b =
     (if calloc_ok e (hist t)
      then (log t [Calloc True])
             \<lparr>flash := \<lparr>f_start = a, f_length = l, f_blocksize = b,
                f_erase = Stm32h7_flash_erase, f_write = Stm32h7_flash_write,
                f_writesize = 2048, f_erased = 0xff, psize = ALIGN_DWORD,
                regbase = unlock_base a\<rparr> # flash t\<rparr>
      else log t [Calloc False])"
  by (simp add: stm32h7_add_flash_def target_add_flash_def prim_defs Let_def unlock_base_def
        log_def)

text \<open>
  Claim C10, as amended. Whenever \<^verbatim>\<open>stm32h7_attach\<close> succeeds and no allocation of a
  flash descriptor failed during it, the memory map it leaves is the seven RAM windows of
  \<open>attach_ram\<close> and the two flash banks \<open>bank1_flash\<close> and \<open>bank2_flash\<close>:
  1 MiB each at \<open>0x08000000\<close> and \<open>0x08100000\<close>, 128 KiB sectors, 2048-byte
  write blocks, erased value \<open>0xFF\<close>. The statement holds for every target, so the
  map is the same for every part id.
\<close>

theorem attach_memory_map:
  assumes att: "stm32h7_attach e t = (True, t')"
    and alloc: "Calloc False \<notin> set (drop (length (hist t)) (hist t'))"
  shows "set (ram t') = set attach_ram \<and> length (ram t') = 7 \<and>
         set (flash t') = {bank1_flash, bank2_flash} \<and> length (flash t') = 2"
proof -
  let ?t1 = "log t [CortexmAttach True]"
  from att have ok: "cortexm_ok e (hist t)"
    by (auto simp: stm32h7_attach_def prim_defs Let_def split: if_splits)
  let ?optsr = "rd32 e (hist ?t1) (FPEC1_BASE + FLASH_OPTSR)"
  let ?w = "if ?optsr AND FLASH_OPTSR_IWDG1_SW = 0 then [Printf iwdg_warning []] else []"
  let ?t3 = "log t ([CortexmAttach True, Read32 (FPEC1_BASE + FLASH_OPTSR) ?optsr] @ ?w)"
  let ?t11 = "?t3\<lparr>flash := [], ram := attach_ram\<rparr>"
  from att ok have t': "t' = stm32h7_add_flash e
      (stm32h7_add_flash e ?t11 0x8000000 0x100000 FLASH_SECTOR_SIZE)
      0x8100000 0x100000 FLASH_SECTOR_SIZE"
    by (auto simp: stm32h7_attach_def prim_defs Let_def target_add_ram_def
          target_mem_map_free_def attach_ram_def log_def)
  show ?thesis
  proof (cases "calloc_ok e (hist ?t11)")
    case False
    with t' alloc show ?thesis
      by (auto simp: add_flash_cases log_def split: if_splits)
  next
    case c1: True
    let ?t12 = "stm32h7_add_flash e ?t11 0x8000000 0x100000 FLASH_SECTOR_SIZE"
    show ?thesis
    proof (cases "calloc_ok e (hist ?t12)")
      case False
      with c1 t' alloc show ?thesis
        by (auto simp: add_flash_cases log_def split: if_splits)
    next
      case True
      with c1 t' have "ram t' = attach_ram \<and> flash t' = [bank2_flash, bank1_flash]"
        by (simp add: add_flash_cases log_def bank1_flash_def bank2_flash_def unlock_base_def
              reg_defs)
      then show ?thesis
        by (auto simp: attach_ram_def)
    qed
  qed
qed

lemma attach_h72x:
  "stm32h7_attach (env_const 0x10) (target0 0x4830) = (True, attached_h72x)"
  by (simp add: stm32h7_attach_def add_flash_cases target_add_ram_def
        target_mem_map_free_def prim_defs Let_def log_def unlock_base_def
        target0_def attached_h72x_def attach_ram_def bank1_flash_def
        bank2_flash_def reg_defs bit_defs)

text \<open>
  Witness: an H72x (part id \<open>0x4830\<close>) whose core attach and allocations succeed.
\<close>

theorem attach_memory_map_witness:
  "stm32h7_attach (env_const 0x10) (target0 0x4830) = (True, attached_h72x) \<and>
   Calloc False \<notin> set (drop (length (hist (target0 0x4830))) (hist attached_h72x)) \<and>
   set (ram attached_h72x) = set attach_ram \<and> length (ram attached_h72x) = 7 \<and>
   set (flash attached_h72x) = {bank1_flash, bank2_flash} \<and>
   length (flash attached_h72x) = 2"
proof -
  have alloc: "Calloc False \<notin> set (drop (length (hist (target0 0x4830))) (hist attached_h72x))"
    by (simp add: target0_def attached_h72x_def)
  from attach_memory_map[OF attach_h72x alloc] attach_h72x alloc
  show ?thesis by simp
qed

text \<open>
  Counterexample to C10 as stated: on an H74x whose heap is exhausted,
  \<^verbatim>\<open>stm32h7_add_flash\<close> returns without registering anything, both times, and
  \<^verbatim>\<open>stm32h7_attach\<close> still reports success: the seven RAM windows are registered and
  no flash bank is.
\<close>

theorem attach_nomem_counterexample:
  "stm32h7_attach env_nomem (target0 0x4500) =
     (True, (target0 0x4500)
        \<lparr>ram := attach_ram,
         hist := [CortexmAttach True, Read32 0x52002020 0x10, Calloc False, Calloc False]\<rparr>) \<and>
   flash ((target0 0x4500)
        \<lparr>ram := attach_ram,
         hist := [CortexmAttach True, Read32 0x52002020 0x10, Calloc False, Calloc False]\<rparr>) = []"
  by (simp add: stm32h7_attach_def add_flash_cases target_add_ram_def
        target_mem_map_free_def prim_defs Let_def log_def env_nomem_def
        target0_def attach_ram_def reg_defs bit_defs)

subsection \<open>The saved debug-control register\<close>

text \<open>No driver entry point changes the private storage of the target.\<close>

lemma add_flash_storage:
  "target_storage (stm32h7_add_flash e t a l b) = target_storage t"
  by (simp add: stm32h7_add_flash_def target_add_flash_def prim_defs Let_def)

lemma attach_storage: "target_storage (snd (stm32h7_attach e t)) = target_storage t"
  by (simp add: stm32h7_attach_def add_flash_storage target_add_ram_def target_mem_map_free_def
        prim_defs Let_def)

lemma uid_storage: "target_storage (snd (stm32h7_uid e t)) = target_storage t"
  by (simp add: stm32h7_uid_def prim_defs Let_def)

lemma cmd_rev_storage: "target_storage (snd (stm32h7_cmd_rev e t)) = target_storage t"
  by (simp add: stm32h7_cmd_rev_def prim_defs Let_def)

lemma cmd_psize_storage:
  "stm32h7_cmd_psize t argv = Inr r \<Longrightarrow> target_storage (snd r) = target_storage t"
  by (auto simp: stm32h7_cmd_psize_def prim_defs Let_def split: if_splits)

lemma do_call_storage:
  "do_call e t c = Some t' \<Longrightarrow> target_storage t' = target_storage t"
proof (cases c)
  case Attach
  assume "do_call e t c = Some t'"
  with Attach show ?thesis using attach_storage by auto
next
  case (Erase sf addr len)
  assume "do_call e t c = Some t'"
  with Erase show ?thesis using flash_erase_framed framed_storage by fastforce
next
  case (Program sf dest src)
  assume "do_call e t c = Some t'"
  with Program show ?thesis using flash_write_framed framed_storage by fastforce
next
  case MassErase
  assume "do_call e t c = Some t'"
  with MassErase show ?thesis using mass_erase_framed framed_storage by fastforce
next
  case (CmdPsize argv)
  assume "do_call e t c = Some t'"
  with CmdPsize show ?thesis using cmd_psize_storage by (auto split: sum.splits)
next
  case CmdUid
  assume "do_call e t c = Some t'"
  with CmdUid show ?thesis using uid_storage by auto
next
  case CmdCrc
  assume "do_call e t c = Some t'"
  with CmdCrc show ?thesis using crc_framed framed_storage by fastforce
next
  case CmdRev
  assume "do_call e t c = Some t'"
  with CmdRev show ?thesis using cmd_rev_storage by auto
qed

lemma run_calls_storage:
  "run_calls e t cs = Some t' \<Longrightarrow> target_storage t' = target_storage t"
proof (induct cs arbitrary: t)
  case Nil
  then show ?case by simp
next
  case (Cons c cs)
  then obtain t1 where c: "do_call e t c = Some t1" and r: "run_calls e t1 cs = Some t'"
    by (auto split: option.splits)
  from Cons(1)[OF r] do_call_storage[OF c] show ?case by simp
qed

text \<open>
  Claim C7, as amended. The value written to \<^verbatim>\<open>DBGMCU_CR\<close> at detach equals the value
  that \<^verbatim>\<open>stm32h7_probe\<close> read from it when the driver claimed the target, just before
  it wrote the debug-clock enables, whatever driver calls (attach, erase, program, mass
  erase, monitor commands) ran in between. The register is captured by the probe routine,
  not by \<^verbatim>\<open>stm32h7_attach\<close>, which neither reads nor saves it.
\<close>

theorem detach_restores_probed_value:
  assumes probe: "stm32h7_probe e t = Inr (True, t1)"
    and run: "run_calls e t1 cs = Some t2"
  shows "\<exists>v. hist t1 = hist t @ [AddCommands, Calloc True, Read32 DBGMCU_CR v,
                                  Write32 DBGMCU_CR (DBGSLEEP_D1 OR D1DBGCKEN)] \<and>
              stm32h7_detach t2 = Inr (log t2 [Write32 DBGMCU_CR v, CortexmDetach])"
proof -
  let ?v = "rd32 e (hist t @ [AddCommands, Calloc True]) DBGMCU_CR"
  from probe have h: "hist t1 = hist t @ [AddCommands, Calloc True, Read32 DBGMCU_CR ?v,
                                  Write32 DBGMCU_CR (DBGSLEEP_D1 OR D1DBGCKEN)]"
    and s: "target_storage t1 = Some \<lparr>dbg_cr = ?v\<rparr>"
    by (auto simp: stm32h7_probe_def prim_defs Let_def log_def split: if_splits)
  from run_calls_storage[OF run] s have "target_storage t2 = Some \<lparr>dbg_cr = ?v\<rparr>"
    by simp
  then have "stm32h7_detach t2 = Inr (log t2 [Write32 DBGMCU_CR ?v, CortexmDetach])"
    by (simp add: stm32h7_detach_def prim_defs)
  with h show ?thesis by blast
qed

lemma env_regs_simps [simp]:
  "rd32 (env_regs d) h a = reg_value h a d"
  "chk_err (env_regs d) h = False"
  "calloc_ok (env_regs d) h = True"
  "cortexm_ok (env_regs d) h = True"
  by (simp_all add: env_regs_def)

lemma probe_regs:
  "stm32h7_probe (env_regs 7) (target0 0x4500) = Inr (True, session_probed)"
  by (simp add: stm32h7_probe_def prim_defs Let_def log_def target0_def session_probed_def
        reg_defs bit_defs ID_STM32H74x_def stm32h7_driver_str_def)

lemma attach_regs:
  "stm32h7_attach (env_regs 7) session_probed = (True, session_attached)"
  by (simp add: stm32h7_attach_def stm32h7_add_flash_def target_add_flash_def
        target_add_ram_def target_mem_map_free_def prim_defs Let_def log_def
        session_probed_def session_attached_def attach_ram_def bank1_flash_def
        bank2_flash_def iwdg_warning_def reg_defs bit_defs)

text \<open>
  Witness: an H74x whose locations behave as registers holding 7 is probed, attached and
  detached; 7 is written back.
\<close>

theorem detach_restores_probed_value_witness:
  "stm32h7_probe (env_regs 7) (target0 0x4500) = Inr (True, session_probed) \<and>
   run_calls (env_regs 7) session_probed [Attach] = Some session_attached \<and>
   hist session_probed = hist (target0 0x4500) @
     [AddCommands, Calloc True, Read32 DBGMCU_CR 7, Write32 DBGMCU_CR (DBGSLEEP_D1 OR D1DBGCKEN)] \<and>
   stm32h7_detach session_attached =
     Inr (log session_attached [Write32 DBGMCU_CR 7, CortexmDetach])"
proof -
  have run: "run_calls (env_regs 7) session_probed [Attach] = Some session_attached"
    by (simp add: attach_regs)
  from detach_restores_probed_value[OF probe_regs run] obtain v where
    h: "hist session_probed = hist (target0 0x4500) @
     [AddCommands, Calloc True, Read32 DBGMCU_CR v, Write32 DBGMCU_CR (DBGSLEEP_D1 OR D1DBGCKEN)]"
    and d: "stm32h7_detach session_attached =
     Inr (log session_attached [Write32 DBGMCU_CR v, CortexmDetach])"
    by blast
  from h have "v = 7"
    by (simp add: session_probed_def target0_def)
  with h d probe_regs run show ?thesis by simp
qed

text \<open>
  Counterexample to C7 as stated (the value is captured on attach): in the same session
  the probe routine has replaced the 7 by \<open>0x200001\<close>, so this is what the register
  holds when \<^verbatim>\<open>stm32h7_attach\<close> runs. Attach reads the option status register only, and
  detach writes 7, not the \<open>0x200001\<close> that an observation at attach would have seen.
\<close>

theorem detach_attach_counterexample:
  "stm32h7_probe (env_regs 7) (target0 0x4500) = Inr (True, session_probed) \<and>
   rd32 (env_regs 7) (hist session_probed) DBGMCU_CR = 0x200001 \<and>
   stm32h7_attach (env_regs 7) session_probed = (True, session_attached) \<and>
   hist session_attached = hist session_probed @
     [CortexmAttach True, Read32 (FPEC1_BASE + FLASH_OPTSR) 7, Printf iwdg_warning [],
      Calloc True, Calloc True] \<and>
   stm32h7_detach session_attached =
     Inr (log session_attached [Write32 DBGMCU_CR 7, CortexmDetach])"
  by (simp add: probe_regs attach_regs)
     (simp add: session_attached_def session_probed_def stm32h7_detach_def prim_defs
        iwdg_warning_def reg_defs)

end
